theory Spec2Isabelle
  imports Main
begin

section \<open>OpenOCD startup options (src/helper/options.c)\<close>

text \<open>
  A shallow embedding of \<^verbatim>\<open>src/helper/options.c\<close>: the executable locator
  \<^verbatim>\<open>find_exe_path\<close>, the suffix search \<^verbatim>\<open>find_suffix\<close>, the default path
  builder \<^verbatim>\<open>add_default_dirs\<close> and the option parser \<^verbatim>\<open>parse_cmdline_args\<close>.
  C strings are \<open>string\<close>, a pointer that may be \<^verbatim>\<open>NULL\<close> is an \<open>option\<close>,
  the preprocessor switches are fields of a build record, and everything the code
  obtains from the operating system is a field of an environment record.
  Memory allocation by \<^verbatim>\<open>alloc_printf\<close> and \<^verbatim>\<open>strdup\<close> is taken to succeed;
  the \<^verbatim>\<open>malloc\<close> calls of the platform lookups can fail (the lookup then
  yields \<open>None\<close>).
\<close>

subsection \<open>Build configuration and run-time environment\<close>

record build =
  IS_WIN32 :: bool
  IS_CYGWIN :: bool
  IS_DARWIN :: bool
  HAVE_KERN_PROC_PATHNAME :: bool
  WIN32 :: bool
  NUVOTON_CUSTOMIZED :: bool
  BINDIR :: string
  PKGDATADIR :: string

text \<open>\<^verbatim>\<open>#ifndef _WIN32 / #define HAVE_REALPATH\<close>\<close>

definition HAVE_REALPATH :: "build \<Rightarrow> bool" where
  "HAVE_REALPATH b = (\<not> WIN32 b)"

record environment =
  getenv :: "string \<Rightarrow> string option"
  realpath :: "string \<Rightarrow> string option"
  module_file_name :: "string option"
  proc_pidpath :: "string option"
  sysctl_pathname :: "string option"
  posixly_correct :: bool

text \<open>
  \<open>module_file_name\<close> is the content of the buffer after \<^verbatim>\<open>GetModuleFileName\<close>,
  whatever the call returned, since the code does not test it; it is \<open>None\<close> only when
  the \<^verbatim>\<open>malloc\<close> of the buffer failed. \<open>proc_pidpath\<close> is the buffer after a
  successful \<^verbatim>\<open>proc_pidpath\<close>, \<open>sysctl_pathname\<close> the buffer after a successful
  \<^verbatim>\<open>sysctl\<close>; each of these two is \<open>None\<close> when its \<^verbatim>\<open>malloc\<close> or the call
  itself failed, which the code tests. \<open>posixly_correct\<close> tells whether
  \<^verbatim>\<open>POSIXLY_CORRECT\<close> is set, which \<^verbatim>\<open>getopt_long\<close> consults.
\<close>

subsection \<open>Program state\<close>

datatype log_level = LOG_LVL_OUTPUT | LOG_LVL_WARNING | LOG_LVL_DEBUG

record prog_state =
  help_flag :: int
  version_flag :: int
  script_search_dirs :: "string list"
  config_file_names :: "string list"
  run_lines :: "string list"
  log_lines :: "(log_level \<times> string) list"

datatype fault = NullDeref

datatype outcome = Returns int prog_state | Exits int prog_state | Crashes fault

definition ERROR_OK :: int where
  "ERROR_OK = 0"

text \<open>The status a parent process sees after \<^verbatim>\<open>exit(n)\<close>: the low eight bits.\<close>

definition exit_status :: "int \<Rightarrow> int" where
  "exit_status n = n mod 256"

text \<open>
  Modelled from the spec: \<^verbatim>\<open>add_script_search_dir\<close> (configuration.c is not among
  the sources). The search-path list is an ordered, append-only sequence of directory
  strings; registering a directory appends it.
\<close>

definition add_script_search_dir :: "string \<Rightarrow> prog_state \<Rightarrow> prog_state" where
  "add_script_search_dir dir ctx = ctx\<lparr>script_search_dirs := script_search_dirs ctx @ [dir]\<rparr>"

text \<open>
  Modelled from the spec: \<^verbatim>\<open>add_config_command\<close> (configuration.c is not among
  the sources). The deferred queue is an ordered sequence of directive strings; this
  code only appends to it.
\<close>

definition add_config_command :: "string \<Rightarrow> prog_state \<Rightarrow> prog_state" where
  "add_config_command cfg ctx = ctx\<lparr>config_file_names := config_file_names ctx @ [cfg]\<rparr>"

text \<open>
  Modelled from the spec: \<^verbatim>\<open>command_run_line\<close> (command.c is not among the
  sources) synchronously runs one directive string. What the interpreter does with it
  is outside this code; the model records the directives in the order they were run.
  The caller ignores the returned status.
\<close>

definition command_run_line :: "string \<Rightarrow> prog_state \<Rightarrow> prog_state" where
  "command_run_line line ctx = ctx\<lparr>run_lines := run_lines ctx @ [line]\<rparr>"

definition log_msg :: "log_level \<Rightarrow> string \<Rightarrow> prog_state \<Rightarrow> prog_state" where
  "log_msg lvl msg ctx = ctx\<lparr>log_lines := log_lines ctx @ [(lvl, msg)]\<rparr>"

subsection \<open>C string helpers\<close>

text \<open>\<^verbatim>\<open>strrchr(s, c)\<close>: the offset of the last \<open>c\<close> in \<open>s\<close>, or \<^verbatim>\<open>NULL\<close>.\<close>

fun strrchr :: "string \<Rightarrow> char \<Rightarrow> nat option" where
  "strrchr [] c = None"
| "strrchr (x # xs) c =
     (case strrchr xs c of
        Some i \<Rightarrow> Some (Suc i)
      | None \<Rightarrow> if x = c then Some 0 else None)"

text \<open>
  \<^verbatim>\<open>*strrchr(s, '/') = '\0'\<close>: cut \<open>s\<close> at its last slash. The pointer is
  dereferenced without a check, so a string without a slash is a fault; so is a
  \<^verbatim>\<open>NULL\<close> string, which \<^verbatim>\<open>strrchr\<close> reads.
\<close>

definition cut_at_last_slash :: "string option \<Rightarrow> fault + string" where
  "cut_at_last_slash p =
     (case p of
        None \<Rightarrow> Inl NullDeref
      | Some s \<Rightarrow>
          (case strrchr s CHR ''/'' of
             None \<Rightarrow> Inl NullDeref
           | Some i \<Rightarrow> Inr (take i s)))"

text \<open>\<^verbatim>\<open>find_suffix\<close>: the offset in \<open>text\<close> where \<open>suffix\<close> starts, or \<^verbatim>\<open>NULL\<close>.\<close>

definition find_suffix :: "string \<Rightarrow> string \<Rightarrow> nat option" where
  "find_suffix text suffix =
     (let text_len = length text; suffix_len = length suffix in
      if suffix_len = 0 then Some text_len
      else if suffix_len > text_len \<or> drop (text_len - suffix_len) text \<noteq> suffix then None
      else Some (text_len - suffix_len))"

text \<open>\<^verbatim>\<open>if (end_of_prefix != NULL) *end_of_prefix = '\0';\<close>\<close>

definition cut_suffix :: "string \<Rightarrow> string \<Rightarrow> string" where
  "cut_suffix text suffix =
     (case find_suffix text suffix of None \<Rightarrow> text | Some i \<Rightarrow> take i text)"

subsection \<open>The executable locator\<close>

text \<open>The platform block of \<^verbatim>\<open>find_exe_path\<close>, one branch per \<^verbatim>\<open>#if\<close>.\<close>

definition unix_separators :: "string \<Rightarrow> string" where
  "unix_separators s = map (\<lambda>c. if c = CHR 0x5C then CHR ''/'' else c) s"

definition platform_exe_path :: "build \<Rightarrow> environment \<Rightarrow> string option" where
  "platform_exe_path b e =
     (if IS_WIN32 b \<and> \<not> IS_CYGWIN b then map_option unix_separators (module_file_name e)
      else if IS_DARWIN b then proc_pidpath e
      else if HAVE_KERN_PROC_PATHNAME b then
        (case sysctl_pathname e of
           None \<Rightarrow> None
         | Some path \<Rightarrow> if HAVE_REALPATH b then realpath e path else Some path)
      else if HAVE_REALPATH b then
        (case realpath e ''/proc/self/exe'' of
           Some p \<Rightarrow> Some p
         | None \<Rightarrow>
             (case realpath e ''/proc/self/path/a.out'' of
                Some p \<Rightarrow> Some p
              | None \<Rightarrow> realpath e ''/proc/curproc/file''))
      else None)"

definition find_exe_path :: "build \<Rightarrow> environment \<Rightarrow> prog_state \<Rightarrow> fault + (string option \<times> prog_state)" where
  "find_exe_path b e ctx =
     (case platform_exe_path b e of
        Some exepath \<Rightarrow>
          (case cut_at_last_slash (Some exepath) of
             Inl f \<Rightarrow> Inl f
           | Inr dir \<Rightarrow> Inr (Some dir, ctx))
      | None \<Rightarrow>
          (let ctx1 = log_msg LOG_LVL_WARNING
                 ''Could not determine executable path, using configured BINDIR.'' ctx;
               ctx2 = log_msg LOG_LVL_DEBUG (''BINDIR = '' @ BINDIR b) ctx1
           in Inr (if HAVE_REALPATH b then realpath e (BINDIR b) else Some (BINDIR b), ctx2)))"

subsection \<open>The default path builder\<close>

text \<open>The suffix that is cut from the executable path, by build.\<close>

definition bin_suffix :: "build \<Rightarrow> string" where
  "bin_suffix b = (if WIN32 b \<and> NUVOTON_CUSTOMIZED b then ''bin'' else BINDIR b)"

text \<open>The data directory component of the two installation-relative defaults, by build.\<close>

definition data_component :: "build \<Rightarrow> string" where
  "data_component b = (if WIN32 b \<and> NUVOTON_CUSTOMIZED b then [] else PKGDATADIR b)"

definition add_env_dirs :: "build \<Rightarrow> environment \<Rightarrow> prog_state \<Rightarrow> prog_state" where
  "add_env_dirs b e ctx =
     (let ctx1 = (case getenv e ''HOME'' of
                    Some home \<Rightarrow> add_script_search_dir (home @ ''/.openocd'') ctx
                  | None \<Rightarrow> ctx);
          ctx2 = (case getenv e ''OPENOCD_SCRIPTS'' of
                    Some path \<Rightarrow> add_script_search_dir path ctx1
                  | None \<Rightarrow> ctx1)
      in if WIN32 b then
           (case getenv e ''APPDATA'' of
              Some appdata \<Rightarrow> add_script_search_dir (appdata @ ''/OpenOCD'') ctx2
            | None \<Rightarrow> ctx2)
         else ctx2)"

text \<open>
  The head of \<^verbatim>\<open>add_default_dirs\<close>: the string returned by \<^verbatim>\<open>find_exe_path\<close> is
  cut at its last slash, then the suffix is cut off if it is one.
\<close>

definition run_prefix :: "build \<Rightarrow> string option \<Rightarrow> fault + string" where
  "run_prefix b exepath =
     (case cut_at_last_slash exepath of
        Inl f \<Rightarrow> Inl f
      | Inr dir \<Rightarrow> Inr (cut_suffix dir (bin_suffix b)))"

definition add_default_dirs :: "build \<Rightarrow> environment \<Rightarrow> prog_state \<Rightarrow> fault + prog_state" where
  "add_default_dirs b e ctx =
     (case find_exe_path b e ctx of
        Inl f \<Rightarrow> Inl f
      | Inr (exepath, ctx0) \<Rightarrow>
          (case run_prefix b exepath of
             Inl f \<Rightarrow> Inl f
           | Inr rp \<Rightarrow>
               (let ctx1 = log_msg LOG_LVL_DEBUG (''bindir='' @ BINDIR b) ctx0;
                    ctx2 = log_msg LOG_LVL_DEBUG (''pkgdatadir='' @ PKGDATADIR b) ctx1;
                    ctx3 = log_msg LOG_LVL_DEBUG (''run_prefix='' @ rp) ctx2;
                    ctx4 = add_env_dirs b e ctx3;
                    ctx5 = add_script_search_dir (rp @ data_component b @ ''/site'') ctx4
                in Inr (add_script_search_dir (rp @ data_component b @ ''/scripts'') ctx5))))"

subsection \<open>The option grammar\<close>

datatype has_arg = no_argument | required_argument | optional_argument

text \<open>The two variables a long option's \<^verbatim>\<open>flag\<close> pointer can address.\<close>

datatype flag_var = Help_flag | Version_flag

record long_option =
  lo_name :: string
  lo_has_arg :: has_arg
  lo_flag :: "flag_var option"
  lo_val :: int

definition chr :: "char \<Rightarrow> int" where
  "chr c = of_char c"

text \<open>The table \<^verbatim>\<open>long_options\<close>, without its terminating zero entry.\<close>

definition long_options :: "long_option list" where
  "long_options =
     [\<lparr>lo_name = ''help'', lo_has_arg = no_argument, lo_flag = Some Help_flag, lo_val = 1\<rparr>,
      \<lparr>lo_name = ''version'', lo_has_arg = no_argument, lo_flag = Some Version_flag, lo_val = 1\<rparr>,
      \<lparr>lo_name = ''debug'', lo_has_arg = optional_argument, lo_flag = None, lo_val = chr CHR ''d''\<rparr>,
      \<lparr>lo_name = ''file'', lo_has_arg = required_argument, lo_flag = None, lo_val = chr CHR ''f''\<rparr>,
      \<lparr>lo_name = ''search'', lo_has_arg = required_argument, lo_flag = None, lo_val = chr CHR ''s''\<rparr>,
      \<lparr>lo_name = ''log_output'', lo_has_arg = required_argument, lo_flag = None, lo_val = chr CHR ''l''\<rparr>,
      \<lparr>lo_name = ''command'', lo_has_arg = required_argument, lo_flag = None, lo_val = chr CHR ''c''\<rparr>,
      \<lparr>lo_name = ''pipe'', lo_has_arg = no_argument, lo_flag = None, lo_val = chr CHR ''p''\<rparr>]"

text \<open>The short option string passed to \<^verbatim>\<open>getopt_long\<close>.\<close>

definition optstring :: string where
  "optstring = ''hvd::l:f:s:c:p''"

subsection \<open>The argument-parsing library\<close>

text \<open>
  \<^verbatim>\<open>getopt_long\<close> belongs to the C library, not to this repository. The model
  follows its documented contract (getopt(3), GNU behaviour) for an option string that
  starts with neither \<^verbatim>\<open>+\<close>, \<^verbatim>\<open>-\<close> nor \<^verbatim>\<open>:\<close>:
  \<^item> elements that are not options (not starting with \<^verbatim>\<open>-\<close>, or exactly \<^verbatim>\<open>-\<close>) are
    skipped, unless \<^verbatim>\<open>POSIXLY_CORRECT\<close> is set, when the first of them ends the scan;
  \<^item> \<^verbatim>\<open>--\<close> ends the scan;
  \<^item> \<^verbatim>\<open>--name\<close>, \<^verbatim>\<open>--name=arg\<close>: a long option, by exact name or by an unambiguous
    abbreviation; a required argument is the text after \<^verbatim>\<open>=\<close> or else the next
    element, an optional argument only the text after \<^verbatim>\<open>=\<close>;
  \<^item> \<^verbatim>\<open>-xyz\<close>: short options, one per call; a required argument is the rest of the
    element or else the next element, an optional argument only the rest of the element;
  \<^item> an unknown or ambiguous option, a missing required argument and an argument given
    to a long option that takes none all return \<^verbatim>\<open>'?'\<close>;
  \<^item> a long option with a \<^verbatim>\<open>flag\<close> pointer stores \<^verbatim>\<open>val\<close> there and returns 0;
  \<^item> \<^verbatim>\<open>optarg\<close> is \<^verbatim>\<open>NULL\<close> unless the option returned has an argument.
  The message the library prints on \<^verbatim>\<open>stderr\<close> is not modelled.
\<close>

record getopt_result =
  ret :: int
  optarg :: "string option"
  flag_store :: "(flag_var \<times> int) option"

text \<open>The scan position: the elements from \<^verbatim>\<open>optind\<close> on, and the unread rest of
  the short-option element being scanned.\<close>

record getopt_state =
  elements :: "string list"
  nextchar :: string

definition gres :: "int \<Rightarrow> string option \<Rightarrow> getopt_result" where
  "gres c a = \<lparr>ret = c, optarg = a, flag_store = None\<rparr>"

definition gpos :: "string list \<Rightarrow> string \<Rightarrow> getopt_state" where
  "gpos es n = \<lparr>elements = es, nextchar = n\<rparr>"

fun strchr_tail :: "string \<Rightarrow> char \<Rightarrow> string option" where
  "strchr_tail [] c = None"
| "strchr_tail (x # xs) c = (if x = c then Some xs else strchr_tail xs c)"

definition short_lookup :: "string \<Rightarrow> char \<Rightarrow> has_arg option" where
  "short_lookup opts c =
     (if c = CHR '':'' \<or> c = CHR '';'' then None
      else case strchr_tail opts c of
             None \<Rightarrow> None
           | Some t \<Rightarrow>
               Some (if take 2 t = ''::'' then optional_argument
                     else if take 1 t = '':'' then required_argument
                     else no_argument))"

definition getopt_short :: "string \<Rightarrow> char \<Rightarrow> string \<Rightarrow> string list \<Rightarrow> getopt_result \<times> getopt_state" where
  "getopt_short opts c cs es =
     (case short_lookup opts c of
        None \<Rightarrow> (gres (chr CHR ''?'') None, gpos es cs)
      | Some no_argument \<Rightarrow> (gres (chr c) None, gpos es cs)
      | Some optional_argument \<Rightarrow> (gres (chr c) (if cs = [] then None else Some cs), gpos es [])
      | Some required_argument \<Rightarrow>
          (if cs \<noteq> [] then (gres (chr c) (Some cs), gpos es [])
           else case es of
                  [] \<Rightarrow> (gres (chr CHR ''?'') None, gpos [] [])
                | a # es' \<Rightarrow> (gres (chr c) (Some a), gpos es' [])))"

definition same_option :: "long_option \<Rightarrow> long_option \<Rightarrow> bool" where
  "same_option p q = (lo_has_arg p = lo_has_arg q \<and> lo_flag p = lo_flag q \<and> lo_val p = lo_val q)"

definition find_long :: "long_option list \<Rightarrow> string \<Rightarrow> long_option option" where
  "find_long table nm =
     (case filter (\<lambda>p. lo_name p = nm) table of
        p # ps \<Rightarrow> Some p
      | [] \<Rightarrow>
          (case filter (\<lambda>p. take (length nm) (lo_name p) = nm) table of
             [] \<Rightarrow> None
           | p # ps \<Rightarrow> if list_all (same_option p) ps then Some p else None))"

definition deliver :: "long_option \<Rightarrow> string option \<Rightarrow> getopt_result" where
  "deliver p a =
     (case lo_flag p of
        Some f \<Rightarrow> \<lparr>ret = 0, optarg = a, flag_store = Some (f, lo_val p)\<rparr>
      | None \<Rightarrow> gres (lo_val p) a)"

definition getopt_longopt :: "long_option list \<Rightarrow> string \<Rightarrow> string list \<Rightarrow> getopt_result \<times> getopt_state" where
  "getopt_longopt table w es =
     (let nm = takeWhile (\<lambda>c. c \<noteq> CHR ''='') w;
          arg = (case dropWhile (\<lambda>c. c \<noteq> CHR ''='') w of [] \<Rightarrow> None | e # a \<Rightarrow> Some a)
      in case find_long table nm of
           None \<Rightarrow> (gres (chr CHR ''?'') None, gpos es [])
         | Some p \<Rightarrow>
             (case arg of
                Some a \<Rightarrow>
                  (if lo_has_arg p = no_argument then (gres (chr CHR ''?'') None, gpos es [])
                   else (deliver p (Some a), gpos es []))
              | None \<Rightarrow>
                  (if lo_has_arg p = required_argument then
                     (case es of
                        [] \<Rightarrow> (gres (chr CHR ''?'') None, gpos [] [])
                      | a # es' \<Rightarrow> (deliver p (Some a), gpos es' []))
                   else (deliver p None, gpos es []))))"

definition nonoption :: "string \<Rightarrow> bool" where
  "nonoption a = (case a of [] \<Rightarrow> True | x # xs \<Rightarrow> x \<noteq> CHR ''-'' \<or> xs = [])"

definition getopt_long :: "bool \<Rightarrow> string \<Rightarrow> long_option list \<Rightarrow> getopt_state \<Rightarrow> getopt_result \<times> getopt_state" where
  "getopt_long posix opts table g =
     (case nextchar g of
        c # cs \<Rightarrow> getopt_short opts c cs (elements g)
      | [] \<Rightarrow>
          (case (if posix then elements g else dropWhile nonoption (elements g)) of
             [] \<Rightarrow> (gres (- 1) None, gpos [] [])
           | a # es \<Rightarrow>
               if a = ''--'' \<or> nonoption a then (gres (- 1) None, gpos [] [])
               else if take 2 a = ''--'' then getopt_longopt table (drop 2 a) es
               else getopt_short opts (hd (tl a)) (drop 2 a) es))"

subsection \<open>The option parser\<close>

text \<open>
  A string argument that is read by the callee: \<^verbatim>\<open>"%s"\<close> in \<^verbatim>\<open>alloc_printf\<close>
  and the directory handed to \<^verbatim>\<open>add_script_search_dir\<close>. Reading a \<^verbatim>\<open>NULL\<close>
  string is a fault.
\<close>

definition read_str :: "string option \<Rightarrow> fault + string" where
  "read_str a = (case a of Some s \<Rightarrow> Inr s | None \<Rightarrow> Inl NullDeref)"

text \<open>The store through a long option's \<^verbatim>\<open>flag\<close> pointer, done inside \<^verbatim>\<open>getopt_long\<close>.\<close>

definition store_flag :: "(flag_var \<times> int) option \<Rightarrow> prog_state \<Rightarrow> prog_state" where
  "store_flag st ctx =
     (case st of
        None \<Rightarrow> ctx
      | Some (Help_flag, v) \<Rightarrow> ctx\<lparr>help_flag := v\<rparr>
      | Some (Version_flag, v) \<Rightarrow> ctx\<lparr>version_flag := v\<rparr>)"

text \<open>The \<^verbatim>\<open>switch (c)\<close> of the parse loop; a value without a case falls through it.\<close>

definition switch_c :: "int \<Rightarrow> string option \<Rightarrow> prog_state \<Rightarrow> fault + prog_state" where
  "switch_c c oa ctx =
     (if c = 0 then Inr ctx
      else if c = chr CHR ''h'' then Inr (ctx\<lparr>help_flag := 1\<rparr>)
      else if c = chr CHR ''v'' then Inr (ctx\<lparr>version_flag := 1\<rparr>)
      else if c = chr CHR ''f'' then
        (case read_str oa of
           Inl f \<Rightarrow> Inl f
         | Inr a \<Rightarrow> Inr (add_config_command (''script {'' @ a @ ''}'') ctx))
      else if c = chr CHR ''s'' then
        (case read_str oa of
           Inl f \<Rightarrow> Inl f
         | Inr a \<Rightarrow> Inr (add_script_search_dir a ctx))
      else if c = chr CHR ''d'' then
        Inr (command_run_line (''debug_level '' @ (case oa of Some a \<Rightarrow> a | None \<Rightarrow> ''3'')) ctx)
      else if c = chr CHR ''l'' then
        (case oa of Some a \<Rightarrow> Inr (command_run_line (''log_output '' @ a) ctx) | None \<Rightarrow> Inr ctx)
      else if c = chr CHR ''c'' then
        (case oa of Some a \<Rightarrow> Inr (add_config_command a ctx) | None \<Rightarrow> Inr ctx)
      else if c = chr CHR ''p'' then
        Inr (log_msg LOG_LVL_WARNING
          (''deprecated option: -p/--pipe. Use '' @ [CHR 0x27] @ ''-c '' @ [CHR 0x22] @
           ''gdb_port pipe; log_output openocd.log'' @ [CHR 0x22, CHR 0x27] @ '' instead.'')
          (command_run_line ''gdb_port pipe; log_output openocd.log'' ctx))
      else Inr ctx)"

text \<open>What one pass of the loop body does to the program state.\<close>

definition handle_option :: "getopt_result \<Rightarrow> prog_state \<Rightarrow> fault + prog_state" where
  "handle_option r ctx = switch_c (ret r) (optarg r) (store_flag (flag_store r) ctx)"

text \<open>The size of what \<^verbatim>\<open>getopt_long\<close> has not read yet.\<close>

definition unread :: "getopt_state \<Rightarrow> nat" where
  "unread g = sum_list (map (\<lambda>a. Suc (length a)) (elements g)) + length (nextchar g)"

lemma sum_list_dropWhile_le:
  "sum_list (map f (dropWhile P xs)) \<le> sum_list (map (f :: 'a \<Rightarrow> nat) xs)"
  by (induction xs) auto

lemma unread_gpos: "unread (gpos es n) = sum_list (map (\<lambda>a. Suc (length a)) es) + length n"
  by (simp add: unread_def gpos_def)

lemma getopt_short_unread:
  "unread (snd (getopt_short opts c cs es)) < Suc (sum_list (map (\<lambda>a. Suc (length a)) es) + length cs)"
  by (simp add: getopt_short_def unread_gpos split: option.split has_arg.split list.split)

lemma getopt_longopt_unread:
  "unread (snd (getopt_longopt table w es)) < Suc (sum_list (map (\<lambda>a. Suc (length a)) es))"
  by (simp add: getopt_longopt_def unread_gpos Let_def split: option.split list.split)

lemma getopt_long_unread:
  assumes "getopt_long posix opts table g = (r, g')" and "ret r \<noteq> - 1"
  shows "unread g' < unread g"
proof (cases "nextchar g")
  case (Cons c cs)
  with assms(1) have "g' = snd (getopt_short opts c cs (elements g))"
    by (simp add: getopt_long_def)
  with Cons show ?thesis
    using getopt_short_unread [of opts c cs "elements g"] by (simp add: unread_def)
next
  case Nil
  define es0 where "es0 = (if posix then elements g else dropWhile nonoption (elements g))"
  have le: "sum_list (map (\<lambda>a. Suc (length a)) es0) \<le> unread g"
    using sum_list_dropWhile_le [of "\<lambda>a. Suc (length a)" nonoption "elements g"]
    by (simp add: es0_def unread_def)
  show ?thesis
  proof (cases es0)
    case Nil': Nil
    with Nil assms show ?thesis
      by (auto simp: getopt_long_def es0_def [symmetric] gres_def)
  next
    case (Cons a es)
    show ?thesis
    proof (cases "a = ''--'' \<or> nonoption a")
      case True
      with Nil Cons assms show ?thesis
        by (auto simp: getopt_long_def es0_def [symmetric] gres_def)
    next
      case False
      then have len: "2 \<le> length a"
        by (cases a) (auto simp: nonoption_def Suc_le_eq)
      show ?thesis
      proof (cases "take 2 a = ''--''")
        case True
        with False Nil Cons assms(1) have "g' = snd (getopt_longopt table (drop 2 a) es)"
          by (simp add: getopt_long_def es0_def [symmetric])
        with le Cons show ?thesis
          using getopt_longopt_unread [of table "drop 2 a" es] by simp
      next
        case nolong: False
        with False Nil Cons assms(1)
        have "g' = snd (getopt_short opts (hd (tl a)) (drop 2 a) es)"
          by (simp add: getopt_long_def es0_def [symmetric])
        with le Cons len show ?thesis
          using getopt_short_unread [of opts "hd (tl a)" "drop 2 a" es] by simp
      qed
    qed
  qed
qed

text \<open>
  The loop \<^verbatim>\<open>while (1) { c = getopt_long(...); if (c == -1) break; switch (c) ... }\<close>.
\<close>

function parse_loop :: "bool \<Rightarrow> getopt_state \<Rightarrow> prog_state \<Rightarrow> fault + prog_state" where
  "parse_loop posix g ctx =
     (case getopt_long posix optstring long_options g of
        (r, g') \<Rightarrow>
          if ret r = - 1 then Inr ctx
          else (case handle_option r ctx of
                  Inl f \<Rightarrow> Inl f
                | Inr ctx' \<Rightarrow> parse_loop posix g' ctx'))"
  by pat_completeness auto
termination
  by (relation "measure (\<lambda>(posix, g, ctx). unread g)") (auto dest: getopt_long_unread [OF sym])

text \<open>The results \<^verbatim>\<open>getopt_long\<close> returns in the course of the loop, in order.\<close>

function getopt_results :: "bool \<Rightarrow> getopt_state \<Rightarrow> getopt_result list" where
  "getopt_results posix g =
     (case getopt_long posix optstring long_options g of
        (r, g') \<Rightarrow> if ret r = - 1 then [] else r # getopt_results posix g')"
  by pat_completeness auto
termination
  by (relation "measure (\<lambda>(posix, g). unread g)") (auto dest: getopt_long_unread [OF sym])

text \<open>The usage text, one entry per \<^verbatim>\<open>LOG_OUTPUT\<close> call.\<close>

definition usage_text :: "string list" where
  "usage_text =
     [''Open On-Chip Debugger\<newline>Licensed under GNU GPL v2\<newline>'',
      ''--help       | -h'' @ [CHR 0x09] @ ''display this help\<newline>'',
      ''--version    | -v'' @ [CHR 0x09] @ ''display OpenOCD version\<newline>'',
      ''--file       | -f'' @ [CHR 0x09] @ ''use configuration file <name>\<newline>'',
      ''--search     | -s'' @ [CHR 0x09] @ ''dir to search for config files and scripts\<newline>'',
      ''--debug      | -d'' @ [CHR 0x09] @ ''set debug level <0-4>\<newline>'',
      ''--log_output | -l'' @ [CHR 0x09] @ ''redirect log output to file <name>\<newline>'',
      ''--command    | -c'' @ [CHR 0x09] @ ''run <command>\<newline>'']"

definition print_usage :: "prog_state \<Rightarrow> prog_state" where
  "print_usage ctx = ctx\<lparr>log_lines := log_lines ctx @ map (Pair LOG_LVL_OUTPUT) usage_text\<rparr>"

text \<open>What follows the loop in \<^verbatim>\<open>parse_cmdline_args\<close>.\<close>

definition after_loop :: "build \<Rightarrow> environment \<Rightarrow> prog_state \<Rightarrow> outcome" where
  "after_loop b e ctx =
     (if help_flag ctx \<noteq> 0 then Exits (- 1) (print_usage ctx)
      else if version_flag ctx \<noteq> 0 then Exits 0 ctx
      else (case add_default_dirs b e ctx of
              Inl f \<Rightarrow> Crashes f
            | Inr ctx' \<Rightarrow> Returns ERROR_OK ctx'))"

text \<open>\<^verbatim>\<open>parse_cmdline_args\<close>; scanning starts behind \<^verbatim>\<open>argv[0]\<close>.\<close>

definition parse_cmdline_args :: "build \<Rightarrow> environment \<Rightarrow> prog_state \<Rightarrow> string list \<Rightarrow> outcome" where
  "parse_cmdline_args b e ctx argv =
     (case parse_loop (posixly_correct e) (gpos (drop 1 argv) []) ctx of
        Inl f \<Rightarrow> Crashes f
      | Inr ctx' \<Rightarrow> after_loop b e ctx')"

text \<open>The state at process start: the flags are zero-initialised statics, nothing is
  registered, queued, run or logged.\<close>

definition initial_state :: prog_state where
  "initial_state =
     \<lparr>help_flag = 0, version_flag = 0, script_search_dirs = [], config_file_names = [],
      run_lines = [], log_lines = []\<rparr>"

subsection \<open>Notions used to state the properties\<close>

text \<open>The loop body applied to a given sequence of \<^verbatim>\<open>getopt_long\<close> results.\<close>

fun run_results :: "getopt_result list \<Rightarrow> prog_state \<Rightarrow> fault + prog_state" where
  "run_results [] ctx = Inr ctx"
| "run_results (r # rs) ctx =
     (case handle_option r ctx of
        Inl f \<Rightarrow> Inl f
      | Inr ctx' \<Rightarrow> run_results rs ctx')"

text \<open>An occurrence of \<^verbatim>\<open>-h\<close> or \<^verbatim>\<open>--help\<close>, of \<^verbatim>\<open>-v\<close> or \<^verbatim>\<open>--version\<close>.\<close>

definition requests_help :: "getopt_result \<Rightarrow> bool" where
  "requests_help r = (ret r = chr CHR ''h'' \<or> flag_store r = Some (Help_flag, 1))"

definition requests_version :: "getopt_result \<Rightarrow> bool" where
  "requests_version r = (ret r = chr CHR ''v'' \<or> flag_store r = Some (Version_flag, 1))"

text \<open>The directory given with an occurrence of \<^verbatim>\<open>-s\<close> or \<^verbatim>\<open>--search\<close>.\<close>

definition searched :: "getopt_result \<Rightarrow> string list" where
  "searched r =
     (if ret r = chr CHR ''s'' then (case optarg r of Some a \<Rightarrow> [a] | None \<Rightarrow> []) else [])"

text \<open>The directive an occurrence of \<^verbatim>\<open>-f\<close> or \<^verbatim>\<open>-c\<close> defers.\<close>

definition queued :: "getopt_result \<Rightarrow> string list" where
  "queued r =
     (if ret r = chr CHR ''f'' then (case optarg r of Some a \<Rightarrow> [''script {'' @ a @ ''}''] | None \<Rightarrow> [])
      else if ret r = chr CHR ''c'' then (case optarg r of Some a \<Rightarrow> [a] | None \<Rightarrow> [])
      else [])"

text \<open>The directive an occurrence of \<^verbatim>\<open>-d\<close>, \<^verbatim>\<open>-l\<close> or \<^verbatim>\<open>-p\<close> runs at once.\<close>

definition immediate :: "getopt_result \<Rightarrow> string list" where
  "immediate r =
     (if ret r = chr CHR ''d'' then [''debug_level '' @ (case optarg r of Some a \<Rightarrow> a | None \<Rightarrow> ''3'')]
      else if ret r = chr CHR ''l'' then (case optarg r of Some a \<Rightarrow> [''log_output '' @ a] | None \<Rightarrow> [])
      else if ret r = chr CHR ''p'' then [''gdb_port pipe; log_output openocd.log'']
      else [])"

text \<open>The warning an occurrence of \<^verbatim>\<open>-p\<close> logs.\<close>

definition warned :: "getopt_result \<Rightarrow> (log_level \<times> string) list" where
  "warned r =
     (if ret r = chr CHR ''p'' then
        [(LOG_LVL_WARNING,
          ''deprecated option: -p/--pipe. Use '' @ [CHR 0x27] @ ''-c '' @ [CHR 0x22] @
          ''gdb_port pipe; log_output openocd.log'' @ [CHR 0x22, CHR 0x27] @ '' instead.'')]
      else [])"

text \<open>
  The option occurrences of an argument vector: the results \<^verbatim>\<open>getopt_long\<close> returns
  for it, in order. With them, the directories given with \<^verbatim>\<open>-s\<close>, the directives
  deferred and the directives run at once, each in the order given.
\<close>

definition option_results :: "environment \<Rightarrow> string list \<Rightarrow> getopt_result list" where
  "option_results e argv = getopt_results (posixly_correct e) (gpos (drop 1 argv) [])"

definition search_args :: "environment \<Rightarrow> string list \<Rightarrow> string list" where
  "search_args e argv = concat (map searched (option_results e argv))"

definition deferred_directives :: "environment \<Rightarrow> string list \<Rightarrow> string list" where
  "deferred_directives e argv = concat (map queued (option_results e argv))"

definition immediate_directives :: "environment \<Rightarrow> string list \<Rightarrow> string list" where
  "immediate_directives e argv = concat (map immediate (option_results e argv))"

definition pipe_warnings :: "environment \<Rightarrow> string list \<Rightarrow> (log_level \<times> string) list" where
  "pipe_warnings e argv = concat (map warned (option_results e argv))"

definition help_requested :: "environment \<Rightarrow> string list \<Rightarrow> bool" where
  "help_requested e argv = list_ex requests_help (option_results e argv)"

definition version_requested :: "environment \<Rightarrow> string list \<Rightarrow> bool" where
  "version_requested e argv = list_ex requests_version (option_results e argv)"

text \<open>
  What the option grammar guarantees of a result: \<^verbatim>\<open>'f'\<close> and \<^verbatim>\<open>'s'\<close> come with
  an argument, and a store through a flag pointer writes 1 and returns 0.
\<close>

definition well_formed :: "getopt_result \<Rightarrow> bool" where
  "well_formed r =
     ((ret r = chr CHR ''f'' \<or> ret r = chr CHR ''s'' \<longrightarrow> optarg r \<noteq> None) \<and>
      (flag_store r = None \<or>
       ret r = 0 \<and> (flag_store r = Some (Help_flag, 1) \<or> flag_store r = Some (Version_flag, 1))))"

text \<open>
  The built-in default directories as the specification lists them, for a run prefix
  \<open>rp\<close>: the home directory entry, the \<^verbatim>\<open>OPENOCD_SCRIPTS\<close> entry, the application
  data entry (on Windows), each only when its variable is set, then the site and the
  scripts directory.
\<close>

definition default_dirs :: "build \<Rightarrow> environment \<Rightarrow> string \<Rightarrow> string list" where
  "default_dirs b e rp =
     (case getenv e ''HOME'' of Some home \<Rightarrow> [home @ ''/.openocd''] | None \<Rightarrow> []) @
     (case getenv e ''OPENOCD_SCRIPTS'' of Some path \<Rightarrow> [path] | None \<Rightarrow> []) @
     (if WIN32 b then (case getenv e ''APPDATA'' of Some appdata \<Rightarrow> [appdata @ ''/OpenOCD''] | None \<Rightarrow> [])
      else []) @
     [rp @ data_component b @ ''/site'', rp @ data_component b @ ''/scripts'']"

text \<open>
  The run prefix in the specification's words (4.2, step 1): the executable directory
  with the known install-bin suffix stripped, if present as a suffix; otherwise left
  unchanged. It is what the run prefix computed by the code is compared with.
\<close>

definition spec_run_prefix :: "build \<Rightarrow> string \<Rightarrow> string" where
  "spec_run_prefix b exe_dir =
     (let sfx = bin_suffix b in
      if length sfx \<le> length exe_dir \<and> drop (length exe_dir - length sfx) exe_dir = sfx
      then take (length exe_dir - length sfx) exe_dir
      else exe_dir)"

subsection \<open>Example builds and environments\<close>

text \<open>A Linux build installed under \<^verbatim>\<open>/usr/local\<close>, run from its installed place.\<close>

definition linux_build :: build where
  "linux_build =
     \<lparr>IS_WIN32 = False, IS_CYGWIN = False, IS_DARWIN = False, HAVE_KERN_PROC_PATHNAME = False,
      WIN32 = False, NUVOTON_CUSTOMIZED = False,
      BINDIR = ''/usr/local/bin'', PKGDATADIR = ''/usr/local/share/openocd''\<rparr>"

definition linux_env :: environment where
  "linux_env =
     \<lparr>getenv = (\<lambda>v. if v = ''HOME'' then Some ''/home/user'' else None),
      realpath = (\<lambda>p. if p = ''/proc/self/exe'' then Some ''/usr/local/bin/openocd'' else None),
      module_file_name = None, proc_pidpath = None, sysctl_pathname = None,
      posixly_correct = False\<rparr>"

text \<open>The same build where neither a \<^verbatim>\<open>/proc\<close> entry nor \<^verbatim>\<open>BINDIR\<close> resolves.\<close>

definition bare_env :: environment where
  "bare_env =
     \<lparr>getenv = (\<lambda>v. None), realpath = (\<lambda>p. None),
      module_file_name = None, proc_pidpath = None, sysctl_pathname = None,
      posixly_correct = False\<rparr>"

text \<open>The same build with the executable in the root directory.\<close>

definition root_env :: environment where
  "root_env =
     \<lparr>getenv = (\<lambda>v. None),
      realpath = (\<lambda>p. if p = ''/proc/self/exe'' then Some ''/openocd'' else None),
      module_file_name = None, proc_pidpath = None, sysctl_pathname = None,
      posixly_correct = False\<rparr>"

text \<open>A Windows build with the Nuvoton customisation.\<close>

definition nuvoton_build :: build where
  "nuvoton_build =
     \<lparr>IS_WIN32 = True, IS_CYGWIN = False, IS_DARWIN = False, HAVE_KERN_PROC_PATHNAME = False,
      WIN32 = True, NUVOTON_CUSTOMIZED = True,
      BINDIR = ''/mingw/bin'', PKGDATADIR = ''/mingw/share/openocd''\<rparr>"

text \<open>A Windows build configured with a relative \<^verbatim>\<open>BINDIR\<close>, and an environment
  where the buffer for the module file name cannot be allocated.\<close>

definition relative_build :: build where
  "relative_build =
     \<lparr>IS_WIN32 = True, IS_CYGWIN = False, IS_DARWIN = False, HAVE_KERN_PROC_PATHNAME = False,
      WIN32 = True, NUVOTON_CUSTOMIZED = False,
      BINDIR = ''bin'', PKGDATADIR = ''share/openocd''\<rparr>"

definition starved_env :: environment where
  "starved_env =
     \<lparr>getenv = (\<lambda>v. None), realpath = (\<lambda>p. None),
      module_file_name = None, proc_pidpath = None, sysctl_pathname = None,
      posixly_correct = False\<rparr>"

definition windows_env :: environment where
  "windows_env =
     \<lparr>getenv = (\<lambda>v. if v = ''APPDATA'' then Some ''C:/Users/user/AppData'' else None),
      realpath = (\<lambda>p. None),
      module_file_name = Some (''C:'' @ [CHR 0x5C] @ ''OpenOCD'' @ [CHR 0x5C] @ ''bin'' @ [CHR 0x5C] @ ''openocd.exe''),
      proc_pidpath = None, sysctl_pathname = None,
      posixly_correct = False\<rparr>"

subsection \<open>Auxiliary facts\<close>

declare parse_loop.simps [simp del] getopt_results.simps [simp del]

lemma chr_neq_minus1 [simp]: "chr c \<noteq> - 1"
proof -
  have "(0::int) \<le> of_nat (of_char c)" by simp
  then have "(0::int) \<le> of_char c" by (simp only: of_nat_of_char)
  then show ?thesis by (simp add: chr_def)
qed

lemma chr_eq_iff [simp]: "chr c = chr d \<longleftrightarrow> c = d"
  by (simp add: chr_def)

lemma chr_eq_0_iff [simp]:
  "chr c = 0 \<longleftrightarrow> c = Char False False False False False False False False"
  "0 = chr c \<longleftrightarrow> c = Char False False False False False False False False"
proof -
  have z: "chr (Char False False False False False False False False) = 0"
    by (simp add: chr_def)
  show "chr c = 0 \<longleftrightarrow> c = Char False False False False False False False False"
    using chr_eq_iff [of c "Char False False False False False False False False"]
    by (simp only: z)
  then show "0 = chr c \<longleftrightarrow> c = Char False False False False False False False False"
    by auto
qed

lemma minus1_neq_chr [simp]: "- 1 \<noteq> chr c"
  by (rule not_sym) (rule chr_neq_minus1)

lemma parse_loop_run: "parse_loop posix g ctx = run_results (getopt_results posix g) ctx"
proof (induction posix g ctx rule: parse_loop.induct)
  case (1 posix g ctx)
  obtain r g' where step: "getopt_long posix optstring long_options g = (r, g')"
    by (cases "getopt_long posix optstring long_options g")
  show ?case
  proof (cases "ret r = - 1")
    case True
    with step show ?thesis
      by (simp add: parse_loop.simps [of posix g] getopt_results.simps [of posix g])
  next
    case False
    with step 1 show ?thesis
      by (simp add: parse_loop.simps [of posix g] getopt_results.simps [of posix g] split: sum.split)
  qed
qed

lemma short_lookup_optstring:
  "short_lookup optstring c =
     (if c \<in> set ''hvp'' then Some no_argument
      else if c = CHR ''d'' then Some optional_argument
      else if c \<in> set ''lfsc'' then Some required_argument
      else None)"
  by (simp add: short_lookup_def optstring_def)

lemma getopt_short_wf: "well_formed (fst (getopt_short optstring c cs es))"
  by (simp add: getopt_short_def short_lookup_optstring well_formed_def gres_def split: list.split)

lemma find_long_mem: "find_long table nm = Some p \<Longrightarrow> p \<in> set table"
proof -
  assume a: "find_long table nm = Some p"
  show ?thesis
  proof (cases "filter (\<lambda>p. lo_name p = nm) table")
    case (Cons q qs)
    with a have "p = q" by (simp add: find_long_def)
    moreover from Cons have "q \<in> set (filter (\<lambda>p. lo_name p = nm) table)" by simp
    ultimately show ?thesis by simp
  next
    case Nil
    show ?thesis
    proof (cases "filter (\<lambda>p. take (length nm) (lo_name p) = nm) table")
      case Nil': Nil
      with Nil a show ?thesis by (simp add: find_long_def)
    next
      case (Cons q qs)
      with Nil a have "p = q" by (simp add: find_long_def split: if_splits)
      moreover from Cons have "q \<in> set (filter (\<lambda>p. take (length nm) (lo_name p) = nm) table)" by simp
      ultimately show ?thesis by simp
    qed
  qed
qed

lemma deliver_wf:
  "p \<in> set long_options \<Longrightarrow> lo_has_arg p = required_argument \<longrightarrow> a \<noteq> None \<Longrightarrow> well_formed (deliver p a)"
  by (auto simp: long_options_def deliver_def well_formed_def gres_def)

lemma question_wf: "well_formed (gres (chr CHR ''?'') None)"
  by (simp add: well_formed_def gres_def)

lemma getopt_longopt_wf: "well_formed (fst (getopt_longopt long_options w es))"
  by (auto simp: getopt_longopt_def Let_def question_wf
      split: option.split list.split dest!: find_long_mem intro!: deliver_wf)

lemma getopt_long_wf:
  assumes "getopt_long posix optstring long_options g = (r, g')"
  shows "well_formed r"
proof -
  have end_wf: "well_formed (gres (- 1) None)"
    by (simp add: well_formed_def gres_def)
  have "well_formed (fst (getopt_long posix optstring long_options g))"
    by (simp add: getopt_long_def getopt_short_wf getopt_longopt_wf end_wf split: list.split)
  with assms show ?thesis by simp
qed

lemma getopt_results_wf: "r \<in> set (getopt_results posix g) \<Longrightarrow> well_formed r"
proof (induction posix g rule: getopt_results.induct)
  case (1 posix g)
  obtain r0 g' where step: "getopt_long posix optstring long_options g = (r0, g')"
    by (cases "getopt_long posix optstring long_options g")
  show ?case
  proof (cases "ret r0 = - 1")
    case True
    with step "1.prems" show ?thesis by (simp add: getopt_results.simps [of posix g])
  next
    case False
    with step "1.prems" have "r = r0 \<or> r \<in> set (getopt_results posix g')"
      by (simp add: getopt_results.simps [of posix g])
    then show ?thesis
      using getopt_long_wf [OF step] "1.IH" [OF step [symmetric] False] by blast
  qed
qed


lemma handle_option_wf:
  assumes "well_formed r"
  shows "\<exists>ctx'. handle_option r ctx = Inr ctx' \<and>
           script_search_dirs ctx' = script_search_dirs ctx @ searched r \<and>
           config_file_names ctx' = config_file_names ctx @ queued r \<and>
           run_lines ctx' = run_lines ctx @ immediate r \<and>
           help_flag ctx' = (if requests_help r then 1 else help_flag ctx) \<and>
           version_flag ctx' = (if requests_version r then 1 else version_flag ctx) \<and>
           log_lines ctx' = log_lines ctx @ warned r"
proof (cases "flag_store r")
  case None
  with assms show ?thesis
    by (auto simp: handle_option_def switch_c_def store_flag_def well_formed_def read_str_def
        searched_def queued_def immediate_def requests_help_def requests_version_def warned_def
        add_config_command_def add_script_search_dir_def command_run_line_def log_msg_def
        split: option.split)
next
  case (Some fv)
  with assms have "ret r = 0" and "fv = (Help_flag, 1) \<or> fv = (Version_flag, 1)"
    by (auto simp: well_formed_def)
  with Some show ?thesis
    by (auto simp: handle_option_def switch_c_def store_flag_def warned_def
        searched_def queued_def immediate_def requests_help_def requests_version_def)
qed

lemma run_results_wf:
  assumes "\<forall>r\<in>set rs. well_formed r"
  shows "\<exists>ctx'. run_results rs ctx = Inr ctx' \<and>
           script_search_dirs ctx' = script_search_dirs ctx @ concat (map searched rs) \<and>
           config_file_names ctx' = config_file_names ctx @ concat (map queued rs) \<and>
           run_lines ctx' = run_lines ctx @ concat (map immediate rs) \<and>
           help_flag ctx' = (if \<exists>r\<in>set rs. requests_help r then 1 else help_flag ctx) \<and>
           version_flag ctx' = (if \<exists>r\<in>set rs. requests_version r then 1 else version_flag ctx) \<and>
           log_lines ctx' = log_lines ctx @ concat (map warned rs)"
  using assms
proof (induction rs arbitrary: ctx)
  case Nil
  then show ?case by simp
next
  case (Cons r rs)
  from Cons.prems have "well_formed r" by simp
  from handle_option_wf [OF this, of ctx] obtain c1 where
    c1: "handle_option r ctx = Inr c1"
      "script_search_dirs c1 = script_search_dirs ctx @ searched r"
      "config_file_names c1 = config_file_names ctx @ queued r"
      "run_lines c1 = run_lines ctx @ immediate r"
      "help_flag c1 = (if requests_help r then 1 else help_flag ctx)"
      "version_flag c1 = (if requests_version r then 1 else version_flag ctx)"
      "log_lines c1 = log_lines ctx @ warned r"
    by blast
  from Cons.prems have "\<forall>r\<in>set rs. well_formed r" by simp
  from Cons.IH [OF this, of c1] obtain c2 where
    c2: "run_results rs c1 = Inr c2"
      "script_search_dirs c2 = script_search_dirs c1 @ concat (map searched rs)"
      "config_file_names c2 = config_file_names c1 @ concat (map queued rs)"
      "run_lines c2 = run_lines c1 @ concat (map immediate rs)"
      "help_flag c2 = (if \<exists>r\<in>set rs. requests_help r then 1 else help_flag c1)"
      "version_flag c2 = (if \<exists>r\<in>set rs. requests_version r then 1 else version_flag c1)"
      "log_lines c2 = log_lines c1 @ concat (map warned rs)"
    by blast
  have "run_results (r # rs) ctx = Inr c2"
    using c1(1) c2(1) by simp
  moreover have "script_search_dirs c2 = script_search_dirs ctx @ concat (map searched (r # rs))"
    using c1(2) c2(2) by simp
  moreover have "config_file_names c2 = config_file_names ctx @ concat (map queued (r # rs))"
    using c1(3) c2(3) by simp
  moreover have "run_lines c2 = run_lines ctx @ concat (map immediate (r # rs))"
    using c1(4) c2(4) by simp
  moreover have "help_flag c2 = (if \<exists>x\<in>set (r # rs). requests_help x then 1 else help_flag ctx)"
    using c1(5) c2(5) by simp
  moreover have "version_flag c2 = (if \<exists>x\<in>set (r # rs). requests_version x then 1 else version_flag ctx)"
    using c1(6) c2(6) by simp
  moreover have "log_lines c2 = log_lines ctx @ concat (map warned (r # rs))"
    using c1(7) c2(7) by simp
  ultimately show ?case by blast
qed

lemma parse_loop_effect:
  "\<exists>ctx'. parse_loop posix g ctx = Inr ctx' \<and>
     script_search_dirs ctx' = script_search_dirs ctx @ concat (map searched (getopt_results posix g)) \<and>
     config_file_names ctx' = config_file_names ctx @ concat (map queued (getopt_results posix g)) \<and>
     run_lines ctx' = run_lines ctx @ concat (map immediate (getopt_results posix g)) \<and>
     help_flag ctx' = (if \<exists>r\<in>set (getopt_results posix g). requests_help r then 1 else help_flag ctx) \<and>
     version_flag ctx' =
       (if \<exists>r\<in>set (getopt_results posix g). requests_version r then 1 else version_flag ctx) \<and>
     log_lines ctx' = log_lines ctx @ concat (map warned (getopt_results posix g))"
  unfolding parse_loop_run
  by (rule run_results_wf) (simp add: getopt_results_wf)

text \<open>A result \<^verbatim>\<open>'?'\<close> changes nothing, so the loop body applied to a sequence of
  results does what it does to the sequence without them.\<close>

lemma run_results_without_question:
  assumes "\<forall>r\<in>set rs. well_formed r"
  shows "run_results (filter (\<lambda>r. ret r \<noteq> chr CHR ''?'') rs) ctx = run_results rs ctx"
  using assms
proof (induction rs arbitrary: ctx)
  case Nil
  then show ?case by simp
next
  case (Cons r rs)
  show ?case
  proof (cases "ret r = chr CHR ''?''")
    case True
    with Cons.prems have "flag_store r = None"
      by (auto simp: well_formed_def)
    with True have "handle_option r ctx = Inr ctx"
      by (simp add: handle_option_def store_flag_def switch_c_def)
    with True Cons show ?thesis by simp
  next
    case False
    with Cons show ?thesis by (simp split: sum.split)
  qed
qed

lemma strrchr_None_iff: "strrchr s c = None \<longleftrightarrow> c \<notin> set s"
  by (induction s) (auto split: option.split)

lemma cut_at_last_slash_Inl_iff:
  "cut_at_last_slash p = Inl NullDeref \<longleftrightarrow> (p = None \<or> (\<exists>s. p = Some s \<and> CHR ''/'' \<notin> set s))"
proof (cases p)
  case None
  then show ?thesis by (simp add: cut_at_last_slash_def)
next
  case (Some s)
  show ?thesis
  proof (cases "strrchr s CHR ''/''")
    case None
    with Some strrchr_None_iff [of s "CHR ''/''"] show ?thesis
      by (simp add: cut_at_last_slash_def)
  next
    case found: (Some i)
    with strrchr_None_iff [of s "CHR ''/''"] have "CHR ''/'' \<in> set s" by simp
    with Some found show ?thesis
      by (simp add: cut_at_last_slash_def)
  qed
qed

lemma fault_is_NullDeref: "(f :: fault) = NullDeref"
  by (cases f) simp

lemma find_suffix_append: "find_suffix (pre @ sfx) sfx = Some (length pre)"
  by (simp add: find_suffix_def Let_def)

lemma cut_suffix_append: "cut_suffix (pre @ sfx) sfx = pre"
  by (simp add: cut_suffix_def find_suffix_append)

lemma cut_suffix_other: "\<nexists>pre. text = pre @ sfx \<Longrightarrow> cut_suffix text sfx = text"
proof -
  assume no: "\<nexists>pre. text = pre @ sfx"
  have "find_suffix text sfx = None"
  proof (cases "find_suffix text sfx")
    case (Some i)
    then have "text = take (length text - length sfx) text @ sfx"
      by (auto simp: find_suffix_def Let_def split: if_splits)
         (metis append_take_drop_id)
    with no show ?thesis by blast
  qed simp
  then show ?thesis by (simp add: cut_suffix_def)
qed

lemma find_exe_path_fields:
  assumes "find_exe_path b e ctx = Inr (p, c0)"
  shows "script_search_dirs c0 = script_search_dirs ctx \<and> config_file_names c0 = config_file_names ctx \<and>
         run_lines c0 = run_lines ctx \<and> help_flag c0 = help_flag ctx \<and> version_flag c0 = version_flag ctx"
  using assms
  by (auto simp: find_exe_path_def log_msg_def Let_def split: option.splits sum.splits)

lemma add_env_dirs_fields:
  "script_search_dirs (add_env_dirs b e c) =
     script_search_dirs c @
     (case getenv e ''HOME'' of Some home \<Rightarrow> [home @ ''/.openocd''] | None \<Rightarrow> []) @
     (case getenv e ''OPENOCD_SCRIPTS'' of Some path \<Rightarrow> [path] | None \<Rightarrow> []) @
     (if WIN32 b then (case getenv e ''APPDATA'' of Some appdata \<Rightarrow> [appdata @ ''/OpenOCD''] | None \<Rightarrow> [])
      else []) \<and>
   config_file_names (add_env_dirs b e c) = config_file_names c \<and>
   run_lines (add_env_dirs b e c) = run_lines c \<and>
   help_flag (add_env_dirs b e c) = help_flag c \<and> version_flag (add_env_dirs b e c) = version_flag c"
  by (simp add: add_env_dirs_def add_script_search_dir_def Let_def split: option.split)

lemma add_default_dirs_Inr:
  assumes "find_exe_path b e ctx = Inr (p, c0)" and "run_prefix b p = Inr rp"
  shows "\<exists>ctx'. add_default_dirs b e ctx = Inr ctx' \<and>
           script_search_dirs ctx' = script_search_dirs ctx @ default_dirs b e rp \<and>
           config_file_names ctx' = config_file_names ctx \<and> run_lines ctx' = run_lines ctx \<and>
           help_flag ctx' = help_flag ctx \<and> version_flag ctx' = version_flag ctx"
  using assms find_exe_path_fields [OF assms(1)]
  by (simp add: add_default_dirs_def Let_def add_env_dirs_fields default_dirs_def
      add_script_search_dir_def log_msg_def)

lemma add_default_dirs_Inr_cases:
  assumes "add_default_dirs b e ctx = Inr ctx'"
  shows "\<exists>p c0 rp. find_exe_path b e ctx = Inr (p, c0) \<and> run_prefix b p = Inr rp"
  using assms by (auto simp: add_default_dirs_def split: sum.splits prod.splits)

lemma add_default_dirs_Inl_iff:
  assumes "find_exe_path b e ctx = Inr (p, c0)"
  shows "add_default_dirs b e ctx = Inl NullDeref \<longleftrightarrow> cut_at_last_slash p = Inl NullDeref"
  using assms
  by (auto simp: add_default_dirs_def run_prefix_def Let_def fault_is_NullDeref split: sum.splits)

lemma parse_loop_step:
  assumes "getopt_long posix optstring long_options g = (r, g')" and "ret r \<noteq> - 1"
    and "handle_option r ctx = Inr ctx'"
  shows "parse_loop posix g ctx = parse_loop posix g' ctx'"
  using assms by (simp add: parse_loop.simps [of posix g])

lemma getopt_long_short_element:
  "c \<noteq> CHR ''-'' \<Longrightarrow>
   getopt_long posix opts table (gpos ((CHR ''-'' # c # cs) # es) []) = getopt_short opts c cs es"
  by (simp add: getopt_long_def gpos_def nonoption_def)

lemma getopt_long_long_element:
  "w \<noteq> [] \<Longrightarrow>
   getopt_long posix opts table (gpos ((CHR ''-'' # CHR ''-'' # w) # es) []) = getopt_longopt table w es"
  by (simp add: getopt_long_def gpos_def nonoption_def)

lemma find_long_file:
  "find_long long_options ''file'' =
     Some \<lparr>lo_name = ''file'', lo_has_arg = required_argument, lo_flag = None, lo_val = chr CHR ''f''\<rparr>"
  by (simp add: find_long_def long_options_def)

lemma find_long_debug:
  "find_long long_options ''debug'' =
     Some \<lparr>lo_name = ''debug'', lo_has_arg = optional_argument, lo_flag = None, lo_val = chr CHR ''d''\<rparr>"
  by (simp add: find_long_def long_options_def)

lemma parse_loop_end: "parse_loop posix (gpos [] []) ctx = Inr ctx"
proof -
  have "getopt_long posix optstring long_options (gpos [] []) = (gres (- 1) None, gpos [] [])"
    by (simp add: getopt_long_def gpos_def)
  then show ?thesis
    by (simp add: parse_loop.simps [of posix "gpos [] []"] gres_def)
qed

lemma handle_f:
  "handle_option (gres (chr CHR ''f'') (Some p)) ctx =
     Inr (ctx\<lparr>config_file_names := config_file_names ctx @ [''script {'' @ p @ ''}'']\<rparr>)"
  by (simp add: handle_option_def gres_def store_flag_def switch_c_def read_str_def add_config_command_def)

lemma handle_d:
  "handle_option (gres (chr CHR ''d'') oa) ctx =
     Inr (ctx\<lparr>run_lines := run_lines ctx @ [''debug_level '' @ (case oa of Some a \<Rightarrow> a | None \<Rightarrow> ''3'')]\<rparr>)"
  by (simp add: handle_option_def gres_def store_flag_def switch_c_def command_run_line_def)

lemma handle_question: "handle_option (gres (chr CHR ''?'') None) ctx = Inr ctx"
  by (simp add: handle_option_def gres_def store_flag_def switch_c_def)

lemma ret_gres [simp]: "ret (gres c a) = c" "optarg (gres c a) = a" "flag_store (gres c a) = None"
  by (simp_all add: gres_def)

lemma flag_store_ret:
  assumes "getopt_long posix optstring long_options g = (r, g')" and "ret r \<noteq> 0"
  shows "flag_store r = None"
  using getopt_long_wf [OF assms(1)] assms(2) by (auto simp: well_formed_def)

lemma handle_question_any:
  assumes "ret r = chr CHR ''?''" and "flag_store r = None"
  shows "handle_option r ctx = Inr ctx"
  using assms by (simp add: handle_option_def store_flag_def switch_c_def)

lemma parse_args_loop:
  "\<exists>ctx1. parse_loop (posixly_correct e) (gpos (drop 1 argv) []) ctx = Inr ctx1 \<and>
     parse_cmdline_args b e ctx argv = after_loop b e ctx1 \<and>
     script_search_dirs ctx1 = script_search_dirs ctx @ search_args e argv \<and>
     config_file_names ctx1 = config_file_names ctx @ deferred_directives e argv \<and>
     run_lines ctx1 = run_lines ctx @ immediate_directives e argv \<and>
     help_flag ctx1 = (if help_requested e argv then 1 else help_flag ctx) \<and>
     version_flag ctx1 = (if version_requested e argv then 1 else version_flag ctx) \<and>
     log_lines ctx1 = log_lines ctx @ pipe_warnings e argv"
  using parse_loop_effect [of "posixly_correct e" "gpos (drop 1 argv) []" ctx]
  by (auto simp: parse_cmdline_args_def search_args_def deferred_directives_def
      immediate_directives_def help_requested_def version_requested_def option_results_def
      pipe_warnings_def list_ex_iff)

lemma parse_args_without_question:
  "parse_cmdline_args b e ctx argv =
     (case run_results (filter (\<lambda>r. ret r \<noteq> chr CHR ''?'') (option_results e argv)) ctx of
        Inl f \<Rightarrow> Crashes f
      | Inr c \<Rightarrow> after_loop b e c)"
  by (simp add: parse_cmdline_args_def parse_loop_run option_results_def
      run_results_without_question getopt_results_wf)

section \<open>The claims\<close>

subsection \<open>C1: an option outside the grammar\<close>

text \<open>
  C1 as stated fails. With the arguments \<^verbatim>\<open>-x -s dir\<close> the library reports \<^verbatim>\<open>'?'\<close>
  for \<^verbatim>\<open>-x\<close>, the loop goes on to register \<^verbatim>\<open>dir\<close>, and \<^verbatim>\<open>parse_cmdline_args\<close>
  returns \<^verbatim>\<open>ERROR_OK\<close>.
\<close>

theorem unknown_option_counterexample:
  "getopt_results False (gpos [''-x'', ''-s'', ''dir''] []) =
     [gres (chr CHR ''?'') None, gres (chr CHR ''s'') (Some ''dir'')] \<and>
   parse_cmdline_args nuvoton_build windows_env initial_state [''openocd.exe'', ''-x'', ''-s'', ''dir''] =
     Returns ERROR_OK
       \<lparr>help_flag = 0, version_flag = 0,
        script_search_dirs =
          [''dir'', ''C:/Users/user/AppData/OpenOCD'', ''C:/OpenOCD/site'', ''C:/OpenOCD/scripts''],
        config_file_names = [], run_lines = [],
        log_lines =
          [(LOG_LVL_DEBUG, ''bindir=/mingw/bin''),
           (LOG_LVL_DEBUG, ''pkgdatadir=/mingw/share/openocd''),
           (LOG_LVL_DEBUG, ''run_prefix=C:/OpenOCD'')]\<rparr>"
  by code_simp

text \<open>
  C1, amended. The \<^verbatim>\<open>switch\<close> has no case for \<^verbatim>\<open>'?'\<close>: whenever \<^verbatim>\<open>getopt_long\<close>
  returns it, the program state is left as it is and the loop continues at the next scan
  position. An element that starts with a short option letter outside the grammar is
  scanned on behind that letter; an element \<^verbatim>\<open>--name\<close> whose name matches no long
  option is skipped; with such an element as first argument \<^verbatim>\<open>parse_cmdline_args\<close>
  ends exactly as it does without it. For every argument vector the outcome of
  \<^verbatim>\<open>parse_cmdline_args\<close> is the outcome of the loop body run over the results other
  than \<^verbatim>\<open>'?'\<close>, followed by the end of the function. When neither help nor version
  is requested, the function does not exit: it ends in \<^verbatim>\<open>add_default_dirs\<close> and, unless
  that faults, returns \<^verbatim>\<open>ERROR_OK\<close>.
\<close>

theorem unknown_option_ignored:
  "(getopt_long posix optstring long_options g = (r, g') \<and> ret r = chr CHR ''?'' \<longrightarrow>
      handle_option r ctx = Inr ctx \<and> parse_loop posix g ctx = parse_loop posix g' ctx) \<and>
   (c \<notin> set ''hvdlfscp-'' \<longrightarrow>
      parse_loop posix (gpos ((CHR ''-'' # c # cs) # es) []) ctx = parse_loop posix (gpos es cs) ctx \<and>
      parse_cmdline_args b e ctx (prog # [CHR ''-'', c] # es) = parse_cmdline_args b e ctx (prog # es)) \<and>
   (w \<noteq> [] \<and> find_long long_options (takeWhile (\<lambda>x. x \<noteq> CHR ''='') w) = None \<longrightarrow>
      parse_loop posix (gpos ((''--'' @ w) # es) []) ctx = parse_loop posix (gpos es []) ctx \<and>
      parse_cmdline_args b e ctx (prog # (''--'' @ w) # es) = parse_cmdline_args b e ctx (prog # es)) \<and>
   parse_cmdline_args b e ctx argv =
     (case run_results (filter (\<lambda>r. ret r \<noteq> chr CHR ''?'') (option_results e argv)) ctx of
        Inl f \<Rightarrow> Crashes f
      | Inr c \<Rightarrow> after_loop b e c) \<and>
   (help_flag ctx = 0 \<and> version_flag ctx = 0 \<and>
    \<not> help_requested e argv \<and> \<not> version_requested e argv \<longrightarrow>
      (\<exists>ctx1. parse_loop (posixly_correct e) (gpos (drop 1 argv) []) ctx = Inr ctx1 \<and>
         parse_cmdline_args b e ctx argv =
           (case add_default_dirs b e ctx1 of Inl f \<Rightarrow> Crashes f | Inr c \<Rightarrow> Returns ERROR_OK c)))"
proof -
  have general: "handle_option r ctx = Inr ctx \<and> parse_loop posix g ctx = parse_loop posix g' ctx"
    if a: "getopt_long posix optstring long_options g = (r, g') \<and> ret r = chr CHR ''?''"
  proof -
    from a have "flag_store r = None"
      using flag_store_ret [of posix g r g'] by simp
    with a have h: "handle_option r ctx = Inr ctx"
      by (simp add: handle_question_any)
    with a show ?thesis
      using parse_loop_step [of posix g r g' ctx ctx] by simp
  qed
  have short: "parse_loop p (gpos ((CHR ''-'' # c # cs') # es) []) ctx = parse_loop p (gpos es cs') ctx"
    if c: "c \<notin> set ''hvdlfscp-''" for p cs'
  proof -
    from c have "short_lookup optstring c = None"
      by (simp add: short_lookup_optstring)
    with c have "getopt_long p optstring long_options (gpos ((CHR ''-'' # c # cs') # es) []) =
        (gres (chr CHR ''?'') None, gpos es cs')"
      by (simp add: getopt_long_short_element getopt_short_def)
    then show ?thesis
      by (rule parse_loop_step) (simp_all add: handle_question)
  qed
  have long: "parse_loop p (gpos ((''--'' @ w) # es) []) ctx = parse_loop p (gpos es []) ctx"
    if w: "w \<noteq> [] \<and> find_long long_options (takeWhile (\<lambda>x. x \<noteq> CHR ''='') w) = None" for p
  proof -
    from w have "getopt_long p optstring long_options (gpos ((CHR ''-'' # CHR ''-'' # w) # es) []) =
        (gres (chr CHR ''?'') None, gpos es [])"
      by (simp add: getopt_long_long_element getopt_longopt_def Let_def)
    then have "parse_loop p (gpos ((CHR ''-'' # CHR ''-'' # w) # es) []) ctx = parse_loop p (gpos es []) ctx"
      by (rule parse_loop_step) (simp_all add: handle_question)
    then show ?thesis by simp
  qed
  have short_args:
    "parse_cmdline_args b e ctx (prog # [CHR ''-'', c] # es) = parse_cmdline_args b e ctx (prog # es)"
    if c: "c \<notin> set ''hvdlfscp-''"
    using short [OF c, of "posixly_correct e" "[]"] by (simp add: parse_cmdline_args_def)
  have long_args:
    "parse_cmdline_args b e ctx (prog # (''--'' @ w) # es) = parse_cmdline_args b e ctx (prog # es)"
    if w: "w \<noteq> [] \<and> find_long long_options (takeWhile (\<lambda>x. x \<noteq> CHR ''='') w) = None"
    using long [OF w, of "posixly_correct e"] by (simp add: parse_cmdline_args_def)
  have no_exit: "\<exists>ctx1. parse_loop (posixly_correct e) (gpos (drop 1 argv) []) ctx = Inr ctx1 \<and>
         parse_cmdline_args b e ctx argv =
           (case add_default_dirs b e ctx1 of Inl f \<Rightarrow> Crashes f | Inr c \<Rightarrow> Returns ERROR_OK c)"
    if n: "help_flag ctx = 0 \<and> version_flag ctx = 0 \<and>
      \<not> help_requested e argv \<and> \<not> version_requested e argv"
  proof -
    from parse_args_loop [of e argv ctx b] obtain ctx1 where
      l: "parse_loop (posixly_correct e) (gpos (drop 1 argv) []) ctx = Inr ctx1"
        "parse_cmdline_args b e ctx argv = after_loop b e ctx1"
        "help_flag ctx1 = (if help_requested e argv then 1 else help_flag ctx)"
        "version_flag ctx1 = (if version_requested e argv then 1 else version_flag ctx)"
      by blast
    from l(3,4) n have "help_flag ctx1 = 0" "version_flag ctx1 = 0" by simp_all
    with l(1,2) show ?thesis by (auto simp: after_loop_def)
  qed
  show ?thesis
    using general short [of posix cs] short_args long [of posix] long_args
      parse_args_without_question [of b e ctx argv] no_exit
    by blast
qed

text \<open>C1, amended, at \<^verbatim>\<open>-x -s dir\<close> and \<^verbatim>\<open>--verbose -s dir\<close> on the Nuvoton Windows
  build: both end as \<^verbatim>\<open>-s dir\<close> does, with \<^verbatim>\<open>ERROR_OK\<close>.\<close>

theorem unknown_option_ignored_witness:
  "getopt_long False optstring long_options (gpos [''-x'', ''-s'', ''dir''] []) =
     (gres (chr CHR ''?'') None, gpos [''-s'', ''dir''] []) \<and>
   handle_option (gres (chr CHR ''?'') None) initial_state = Inr initial_state \<and>
   parse_loop False (gpos [''-x'', ''-s'', ''dir''] []) initial_state =
     parse_loop False (gpos [''-s'', ''dir''] []) initial_state \<and>
   CHR ''x'' \<notin> set ''hvdlfscp-'' \<and>
   parse_cmdline_args nuvoton_build windows_env initial_state [''openocd.exe'', ''-x'', ''-s'', ''dir''] =
     parse_cmdline_args nuvoton_build windows_env initial_state [''openocd.exe'', ''-s'', ''dir''] \<and>
   find_long long_options (takeWhile (\<lambda>x. x \<noteq> CHR ''='') ''verbose'') = None \<and>
   parse_cmdline_args nuvoton_build windows_env initial_state [''openocd.exe'', ''--verbose'', ''-s'', ''dir''] =
     parse_cmdline_args nuvoton_build windows_env initial_state [''openocd.exe'', ''-s'', ''dir''] \<and>
   help_flag initial_state = 0 \<and> version_flag initial_state = 0 \<and>
   \<not> help_requested windows_env [''openocd.exe'', ''-x'', ''-s'', ''dir''] \<and>
   \<not> version_requested windows_env [''openocd.exe'', ''-x'', ''-s'', ''dir''] \<and>
   parse_cmdline_args nuvoton_build windows_env initial_state [''openocd.exe'', ''-x'', ''-s'', ''dir''] =
     Returns ERROR_OK
       \<lparr>help_flag = 0, version_flag = 0,
        script_search_dirs =
          [''dir'', ''C:/Users/user/AppData/OpenOCD'', ''C:/OpenOCD/site'', ''C:/OpenOCD/scripts''],
        config_file_names = [], run_lines = [],
        log_lines =
          [(LOG_LVL_DEBUG, ''bindir=/mingw/bin''),
           (LOG_LVL_DEBUG, ''pkgdatadir=/mingw/share/openocd''),
           (LOG_LVL_DEBUG, ''run_prefix=C:/OpenOCD'')]\<rparr>"
proof -
  let ?argv = "[''openocd.exe'', ''-x'', ''-s'', ''dir'']"
  let ?mid = "initial_state\<lparr>script_search_dirs := [''dir'']\<rparr>"
  have g: "getopt_long False optstring long_options (gpos [''-x'', ''-s'', ''dir''] []) =
     (gres (chr CHR ''?'') None, gpos [''-s'', ''dir''] [])"
    by (simp add: getopt_long_short_element getopt_short_def short_lookup_optstring)
  have x: "CHR ''x'' \<notin> set ''hvdlfscp-''" by simp
  have f: "find_long long_options (takeWhile (\<lambda>x. x \<noteq> CHR ''='') ''verbose'') = None"
    by (simp add: find_long_def long_options_def)
  have h: "help_flag initial_state = 0" "version_flag initial_state = 0"
    by (simp_all add: initial_state_def)
  have n: "\<not> help_requested windows_env ?argv" "\<not> version_requested windows_env ?argv"
    by code_simp+
  have pc: "posixly_correct windows_env = False"
    by (simp add: windows_env_def)
  have pl: "parse_loop False (gpos [''-s'', ''dir''] []) initial_state = Inr ?mid"
    by code_simp
  have ad: "add_default_dirs nuvoton_build windows_env ?mid =
     Inr \<lparr>help_flag = 0, version_flag = 0,
        script_search_dirs =
          [''dir'', ''C:/Users/user/AppData/OpenOCD'', ''C:/OpenOCD/site'', ''C:/OpenOCD/scripts''],
        config_file_names = [], run_lines = [],
        log_lines =
          [(LOG_LVL_DEBUG, ''bindir=/mingw/bin''),
           (LOG_LVL_DEBUG, ''pkgdatadir=/mingw/share/openocd''),
           (LOG_LVL_DEBUG, ''run_prefix=C:/OpenOCD'')]\<rparr>"
    by code_simp
  note t = unknown_option_ignored
    [where posix = False and g = "gpos [''-x'', ''-s'', ''dir''] []" and r = "gres (chr CHR ''?'') None"
       and g' = "gpos [''-s'', ''dir''] []" and ctx = initial_state and c = "CHR ''x''" and cs = "[]"
       and es = "[''-s'', ''dir'']" and w = "''verbose''" and b = nuvoton_build and e = windows_env
       and prog = "''openocd.exe''" and argv = ?argv]
  from t g have step: "handle_option (gres (chr CHR ''?'') None) initial_state = Inr initial_state"
    "parse_loop False (gpos [''-x'', ''-s'', ''dir''] []) initial_state =
       parse_loop False (gpos [''-s'', ''dir''] []) initial_state"
    by simp_all
  from t x have sh: "parse_cmdline_args nuvoton_build windows_env initial_state ?argv =
     parse_cmdline_args nuvoton_build windows_env initial_state [''openocd.exe'', ''-s'', ''dir'']"
    by simp
  from t f have lo: "parse_cmdline_args nuvoton_build windows_env initial_state [''openocd.exe'', ''--verbose'', ''-s'', ''dir''] =
     parse_cmdline_args nuvoton_build windows_env initial_state [''openocd.exe'', ''-s'', ''dir'']"
    by simp
  from t h n obtain ctx1 where
    c: "parse_loop (posixly_correct windows_env) (gpos (drop 1 ?argv) []) initial_state = Inr ctx1"
      "parse_cmdline_args nuvoton_build windows_env initial_state ?argv =
        (case add_default_dirs nuvoton_build windows_env ctx1 of Inl f \<Rightarrow> Crashes f | Inr c \<Rightarrow> Returns ERROR_OK c)"
    by blast
  from c(1) step(2) pl pc have "ctx1 = ?mid" by simp
  with c(2) ad have r: "parse_cmdline_args nuvoton_build windows_env initial_state ?argv =
     Returns ERROR_OK
       \<lparr>help_flag = 0, version_flag = 0,
        script_search_dirs =
          [''dir'', ''C:/Users/user/AppData/OpenOCD'', ''C:/OpenOCD/site'', ''C:/OpenOCD/scripts''],
        config_file_names = [], run_lines = [],
        log_lines =
          [(LOG_LVL_DEBUG, ''bindir=/mingw/bin''),
           (LOG_LVL_DEBUG, ''pkgdatadir=/mingw/share/openocd''),
           (LOG_LVL_DEBUG, ''run_prefix=C:/OpenOCD'')]\<rparr>"
    by simp
  from g step x sh f lo h n r show ?thesis by blast
qed

subsection \<open>C2: the run prefix\<close>

text \<open>
  C2 does not hold of the code. \<^verbatim>\<open>find_exe_path\<close> already cuts the file name off and
  returns the directory of the executable; \<^verbatim>\<open>add_default_dirs\<close> cuts at the last slash
  once more, under the same comment, and so removes the last directory component
  before it looks for the suffix. For \<^verbatim>\<open>/usr/local/bin/openocd\<close> and the suffix
  \<^verbatim>\<open>/usr/local/bin\<close> the directory of the executable with the suffix removed is the
  empty string, the run prefix computed is \<^verbatim>\<open>/usr/local\<close>, and the site and scripts
  directories are looked for under \<^verbatim>\<open>/usr/local/usr/local/share/openocd\<close>.
\<close>

theorem run_prefix_cut_twice:
  "find_exe_path linux_build linux_env initial_state = Inr (Some ''/usr/local/bin'', initial_state) \<and>
   cut_suffix ''/usr/local/bin'' (bin_suffix linux_build) = [] \<and>
   run_prefix linux_build (Some ''/usr/local/bin'') = Inr ''/usr/local'' \<and>
   map_sum id script_search_dirs (add_default_dirs linux_build linux_env initial_state) =
     Inr [''/home/user/.openocd'', ''/usr/local/usr/local/share/openocd/site'',
          ''/usr/local/usr/local/share/openocd/scripts'']"
  by code_simp

subsection \<open>C3: the result of the executable locator\<close>

text \<open>
  C3 does not hold of the code. When no platform lookup succeeds and \<^verbatim>\<open>realpath(BINDIR)\<close>
  fails too, \<^verbatim>\<open>find_exe_path\<close> logs its warning and returns \<^verbatim>\<open>NULL\<close>; when the
  executable lies in the root directory, it returns the empty string.
\<close>

theorem find_exe_path_null_or_empty:
  "find_exe_path linux_build bare_env initial_state =
     Inr (None,
          initial_state\<lparr>log_lines :=
            [(LOG_LVL_WARNING, ''Could not determine executable path, using configured BINDIR.''),
             (LOG_LVL_DEBUG, ''BINDIR = /usr/local/bin'')]\<rparr>) \<and>
   find_exe_path linux_build root_env initial_state = Inr (Some [], initial_state)"
  by code_simp

subsection \<open>C4: search directories of the command line come first\<close>

text \<open>
  C4. For every argument vector without a help or version request, started with both
  flags zero: the loop ends without fault with every \<^verbatim>\<open>-s\<close> directory registered, in
  the order given; only then \<^verbatim>\<open>add_default_dirs\<close> runs, on that state; and whenever it
  succeeds, the search-path list is the list before, the \<^verbatim>\<open>-s\<close> directories, and
  behind them the built-in defaults.
\<close>

theorem search_dirs_precede_defaults:
  assumes "help_flag ctx = 0" and "version_flag ctx = 0"
    and "\<not> help_requested e argv" and "\<not> version_requested e argv"
  shows "\<exists>ctx1. parse_loop (posixly_correct e) (gpos (drop 1 argv) []) ctx = Inr ctx1 \<and>
      script_search_dirs ctx1 = script_search_dirs ctx @ search_args e argv \<and>
      parse_cmdline_args b e ctx argv =
        (case add_default_dirs b e ctx1 of Inl f \<Rightarrow> Crashes f | Inr c \<Rightarrow> Returns ERROR_OK c) \<and>
      (\<forall>c. add_default_dirs b e ctx1 = Inr c \<longrightarrow>
         (\<exists>rp. script_search_dirs c =
                 script_search_dirs ctx @ search_args e argv @ default_dirs b e rp))"
proof -
  from parse_args_loop [of e argv ctx b] obtain ctx1 where
    l: "parse_loop (posixly_correct e) (gpos (drop 1 argv) []) ctx = Inr ctx1"
      "parse_cmdline_args b e ctx argv = after_loop b e ctx1"
      "script_search_dirs ctx1 = script_search_dirs ctx @ search_args e argv"
      "help_flag ctx1 = (if help_requested e argv then 1 else help_flag ctx)"
      "version_flag ctx1 = (if version_requested e argv then 1 else version_flag ctx)"
    by blast
  from l(4,5) assms have flags: "help_flag ctx1 = 0" "version_flag ctx1 = 0"
    by simp_all
  have out: "parse_cmdline_args b e ctx argv =
      (case add_default_dirs b e ctx1 of Inl f \<Rightarrow> Crashes f | Inr c \<Rightarrow> Returns ERROR_OK c)"
    using l(2) flags by (simp add: after_loop_def)
  have "\<exists>rp. script_search_dirs c = script_search_dirs ctx @ search_args e argv @ default_dirs b e rp"
    if c: "add_default_dirs b e ctx1 = Inr c" for c
  proof -
    from add_default_dirs_Inr_cases [OF c] obtain p c0 rp where
      f: "find_exe_path b e ctx1 = Inr (p, c0)" and rp: "run_prefix b p = Inr rp"
      by blast
    from add_default_dirs_Inr [OF f rp] c l(3)
    have "script_search_dirs c = script_search_dirs ctx @ search_args e argv @ default_dirs b e rp"
      by auto
    then show ?thesis ..
  qed
  with l(1,3) out show ?thesis by blast
qed

text \<open>C4 at \<^verbatim>\<open>-s a -f b.cfg --search c\<close> on the Nuvoton Windows build.\<close>

theorem search_dirs_precede_defaults_witness:
  "help_flag initial_state = 0 \<and> version_flag initial_state = 0 \<and>
   \<not> help_requested windows_env [''openocd.exe'', ''-s'', ''a'', ''-f'', ''b.cfg'', ''--search'', ''c''] \<and>
   \<not> version_requested windows_env [''openocd.exe'', ''-s'', ''a'', ''-f'', ''b.cfg'', ''--search'', ''c''] \<and>
   search_args windows_env [''openocd.exe'', ''-s'', ''a'', ''-f'', ''b.cfg'', ''--search'', ''c''] = [''a'', ''c''] \<and>
   parse_loop False (gpos [''-s'', ''a'', ''-f'', ''b.cfg'', ''--search'', ''c''] []) initial_state =
     Inr (initial_state\<lparr>script_search_dirs := [''a'', ''c''], config_file_names := [''script {b.cfg}'']\<rparr>) \<and>
   parse_cmdline_args nuvoton_build windows_env initial_state
       [''openocd.exe'', ''-s'', ''a'', ''-f'', ''b.cfg'', ''--search'', ''c''] =
     Returns ERROR_OK
       \<lparr>help_flag = 0, version_flag = 0,
        script_search_dirs =
          [''a'', ''c'', ''C:/Users/user/AppData/OpenOCD'', ''C:/OpenOCD/site'', ''C:/OpenOCD/scripts''],
        config_file_names = [''script {b.cfg}''], run_lines = [],
        log_lines =
          [(LOG_LVL_DEBUG, ''bindir=/mingw/bin''),
           (LOG_LVL_DEBUG, ''pkgdatadir=/mingw/share/openocd''),
           (LOG_LVL_DEBUG, ''run_prefix=C:/OpenOCD'')]\<rparr>"
proof -
  let ?argv = "[''openocd.exe'', ''-s'', ''a'', ''-f'', ''b.cfg'', ''--search'', ''c'']"
  let ?mid = "initial_state\<lparr>script_search_dirs := [''a'', ''c''], config_file_names := [''script {b.cfg}'']\<rparr>"
  have h: "help_flag initial_state = 0" "version_flag initial_state = 0"
    by (simp_all add: initial_state_def)
  have n: "\<not> help_requested windows_env ?argv" "\<not> version_requested windows_env ?argv"
    by code_simp+
  have s: "search_args windows_env ?argv = [''a'', ''c'']"
    by code_simp
  have pl: "parse_loop False (gpos [''-s'', ''a'', ''-f'', ''b.cfg'', ''--search'', ''c''] []) initial_state = Inr ?mid"
    by code_simp
  have ad: "add_default_dirs nuvoton_build windows_env ?mid =
     Inr \<lparr>help_flag = 0, version_flag = 0,
        script_search_dirs =
          [''a'', ''c'', ''C:/Users/user/AppData/OpenOCD'', ''C:/OpenOCD/site'', ''C:/OpenOCD/scripts''],
        config_file_names = [''script {b.cfg}''], run_lines = [],
        log_lines =
          [(LOG_LVL_DEBUG, ''bindir=/mingw/bin''),
           (LOG_LVL_DEBUG, ''pkgdatadir=/mingw/share/openocd''),
           (LOG_LVL_DEBUG, ''run_prefix=C:/OpenOCD'')]\<rparr>"
    by code_simp
  have pc: "posixly_correct windows_env = False"
    by (simp add: windows_env_def)
  from search_dirs_precede_defaults [OF h n, of nuvoton_build] obtain ctx1 where
    c: "parse_loop (posixly_correct windows_env) (gpos (drop 1 ?argv) []) initial_state = Inr ctx1"
      "parse_cmdline_args nuvoton_build windows_env initial_state ?argv =
        (case add_default_dirs nuvoton_build windows_env ctx1 of Inl f \<Rightarrow> Crashes f | Inr c \<Rightarrow> Returns ERROR_OK c)"
    by blast
  from c(1) pl pc have "ctx1 = ?mid" by simp
  with c(2) ad have r: "parse_cmdline_args nuvoton_build windows_env initial_state ?argv =
     Returns ERROR_OK
       \<lparr>help_flag = 0, version_flag = 0,
        script_search_dirs =
          [''a'', ''c'', ''C:/Users/user/AppData/OpenOCD'', ''C:/OpenOCD/site'', ''C:/OpenOCD/scripts''],
        config_file_names = [''script {b.cfg}''], run_lines = [],
        log_lines =
          [(LOG_LVL_DEBUG, ''bindir=/mingw/bin''),
           (LOG_LVL_DEBUG, ''pkgdatadir=/mingw/share/openocd''),
           (LOG_LVL_DEBUG, ''run_prefix=C:/OpenOCD'')]\<rparr>"
    by simp
  from h n s pl r show ?thesis by blast
qed

subsection \<open>C5: the search-path list after the return\<close>

text \<open>
  C5 does not hold of the code. The entries are appended in the order the claim gives,
  but the last two are not the site and scripts directory of the run prefix: the run
  prefix is computed from the executable directory cut once more (see C2). On the Linux
  build run from \<^verbatim>\<open>/usr/local/bin/openocd\<close> with \<^verbatim>\<open>-s dir\<close>, the run prefix of the
  specification is empty and the list the claim gives ends with
  \<^verbatim>\<open>/usr/local/share/openocd/site\<close> and \<^verbatim>\<open>/usr/local/share/openocd/scripts\<close>;
  \<^verbatim>\<open>parse_cmdline_args\<close> returns a list that ends with
  \<^verbatim>\<open>/usr/local/usr/local/share/openocd/site\<close> and
  \<^verbatim>\<open>/usr/local/usr/local/share/openocd/scripts\<close>.
\<close>

theorem default_dirs_under_wrong_prefix:
  "find_exe_path linux_build linux_env initial_state = Inr (Some ''/usr/local/bin'', initial_state) \<and>
   spec_run_prefix linux_build ''/usr/local/bin'' = [] \<and>
   search_args linux_env [''openocd'', ''-s'', ''dir''] @
     default_dirs linux_build linux_env (spec_run_prefix linux_build ''/usr/local/bin'') =
     [''dir'', ''/home/user/.openocd'', ''/usr/local/share/openocd/site'',
      ''/usr/local/share/openocd/scripts''] \<and>
   parse_cmdline_args linux_build linux_env initial_state [''openocd'', ''-s'', ''dir''] =
     Returns ERROR_OK
       \<lparr>help_flag = 0, version_flag = 0,
        script_search_dirs =
          [''dir'', ''/home/user/.openocd'', ''/usr/local/usr/local/share/openocd/site'',
           ''/usr/local/usr/local/share/openocd/scripts''],
        config_file_names = [], run_lines = [],
        log_lines =
          [(LOG_LVL_DEBUG, ''bindir=/usr/local/bin''),
           (LOG_LVL_DEBUG, ''pkgdatadir=/usr/local/share/openocd''),
           (LOG_LVL_DEBUG, ''run_prefix=/usr/local'')]\<rparr>"
  by code_simp

subsection \<open>C6: help and version\<close>

text \<open>
  C6. When help was requested, whatever else the argument vector holds and whatever the
  state before, \<^verbatim>\<open>parse_cmdline_args\<close> exits with \<^verbatim>\<open>-1\<close>, a non-zero status, and what
  it has logged by then is the log before, the deprecation warnings of the \<^verbatim>\<open>-p\<close>
  occurrences, and the eight lines of the usage text written out below. The
  search-path list holds the \<^verbatim>\<open>-s\<close> directories and no default, the deferred queue
  holds every queued directive, and only the immediate directives were run. When
  version was requested and help was not, it exits with status 0, also before
  \<^verbatim>\<open>add_default_dirs\<close>, and nothing but the warnings is logged.
\<close>

theorem help_exits_before_defaults:
  "(help_requested e argv \<longrightarrow>
      (\<exists>ctx1. parse_loop (posixly_correct e) (gpos (drop 1 argv) []) ctx = Inr ctx1 \<and>
         parse_cmdline_args b e ctx argv = Exits (- 1) (print_usage ctx1) \<and>
         exit_status (- 1) \<noteq> 0 \<and>
         log_lines (print_usage ctx1) =
           log_lines ctx @ pipe_warnings e argv @
           [(LOG_LVL_OUTPUT, ''Open On-Chip Debugger\<newline>Licensed under GNU GPL v2\<newline>''),
            (LOG_LVL_OUTPUT, ''--help       | -h'' @ [CHR 0x09] @ ''display this help\<newline>''),
            (LOG_LVL_OUTPUT, ''--version    | -v'' @ [CHR 0x09] @ ''display OpenOCD version\<newline>''),
            (LOG_LVL_OUTPUT, ''--file       | -f'' @ [CHR 0x09] @ ''use configuration file <name>\<newline>''),
            (LOG_LVL_OUTPUT,
             ''--search     | -s'' @ [CHR 0x09] @ ''dir to search for config files and scripts\<newline>''),
            (LOG_LVL_OUTPUT, ''--debug      | -d'' @ [CHR 0x09] @ ''set debug level <0-4>\<newline>''),
            (LOG_LVL_OUTPUT,
             ''--log_output | -l'' @ [CHR 0x09] @ ''redirect log output to file <name>\<newline>''),
            (LOG_LVL_OUTPUT, ''--command    | -c'' @ [CHR 0x09] @ ''run <command>\<newline>'')] \<and>
         script_search_dirs (print_usage ctx1) = script_search_dirs ctx @ search_args e argv \<and>
         config_file_names (print_usage ctx1) = config_file_names ctx @ deferred_directives e argv \<and>
         run_lines (print_usage ctx1) = run_lines ctx @ immediate_directives e argv)) \<and>
   (help_flag ctx = 0 \<and> \<not> help_requested e argv \<and> version_requested e argv \<longrightarrow>
      (\<exists>ctx1. parse_loop (posixly_correct e) (gpos (drop 1 argv) []) ctx = Inr ctx1 \<and>
         parse_cmdline_args b e ctx argv = Exits 0 ctx1 \<and>
         exit_status 0 = 0 \<and>
         log_lines ctx1 = log_lines ctx @ pipe_warnings e argv \<and>
         script_search_dirs ctx1 = script_search_dirs ctx @ search_args e argv \<and>
         config_file_names ctx1 = config_file_names ctx @ deferred_directives e argv \<and>
         run_lines ctx1 = run_lines ctx @ immediate_directives e argv))"
proof -
  from parse_args_loop [of e argv ctx b] obtain ctx1 where
    l: "parse_loop (posixly_correct e) (gpos (drop 1 argv) []) ctx = Inr ctx1"
      "parse_cmdline_args b e ctx argv = after_loop b e ctx1"
      "script_search_dirs ctx1 = script_search_dirs ctx @ search_args e argv"
      "config_file_names ctx1 = config_file_names ctx @ deferred_directives e argv"
      "run_lines ctx1 = run_lines ctx @ immediate_directives e argv"
      "help_flag ctx1 = (if help_requested e argv then 1 else help_flag ctx)"
      "version_flag ctx1 = (if version_requested e argv then 1 else version_flag ctx)"
      "log_lines ctx1 = log_lines ctx @ pipe_warnings e argv"
    by blast
  have st: "exit_status (- 1) \<noteq> 0" "exit_status 0 = 0"
    by (simp_all add: exit_status_def)
  have on_help: "parse_cmdline_args b e ctx argv = Exits (- 1) (print_usage ctx1)"
    if "help_requested e argv"
    using that l(2,6) by (simp add: after_loop_def)
  have on_version: "parse_cmdline_args b e ctx argv = Exits 0 ctx1"
    if "help_flag ctx = 0 \<and> \<not> help_requested e argv \<and> version_requested e argv"
    using that l(2,6,7) by (simp add: after_loop_def)
  have pu: "log_lines (print_usage ctx1) =
           log_lines ctx @ pipe_warnings e argv @
           [(LOG_LVL_OUTPUT, ''Open On-Chip Debugger\<newline>Licensed under GNU GPL v2\<newline>''),
            (LOG_LVL_OUTPUT, ''--help       | -h'' @ [CHR 0x09] @ ''display this help\<newline>''),
            (LOG_LVL_OUTPUT, ''--version    | -v'' @ [CHR 0x09] @ ''display OpenOCD version\<newline>''),
            (LOG_LVL_OUTPUT, ''--file       | -f'' @ [CHR 0x09] @ ''use configuration file <name>\<newline>''),
            (LOG_LVL_OUTPUT,
             ''--search     | -s'' @ [CHR 0x09] @ ''dir to search for config files and scripts\<newline>''),
            (LOG_LVL_OUTPUT, ''--debug      | -d'' @ [CHR 0x09] @ ''set debug level <0-4>\<newline>''),
            (LOG_LVL_OUTPUT,
             ''--log_output | -l'' @ [CHR 0x09] @ ''redirect log output to file <name>\<newline>''),
            (LOG_LVL_OUTPUT, ''--command    | -c'' @ [CHR 0x09] @ ''run <command>\<newline>'')]"
    "script_search_dirs (print_usage ctx1) = script_search_dirs ctx1"
    "config_file_names (print_usage ctx1) = config_file_names ctx1"
    "run_lines (print_usage ctx1) = run_lines ctx1"
    using l(8) by (simp_all add: print_usage_def usage_text_def)
  show ?thesis
    using l(1,3,4,5,8) st on_help on_version pu by auto
qed

text \<open>C6 at \<^verbatim>\<open>-f a.cfg -v -s dir --help -c init\<close> and at \<^verbatim>\<open>-c init --version\<close>.\<close>

theorem help_exits_before_defaults_witness:
  "help_requested linux_env [''openocd'', ''-f'', ''a.cfg'', ''-v'', ''-s'', ''dir'', ''--help'', ''-c'', ''init''] \<and>
   parse_cmdline_args linux_build linux_env initial_state
       [''openocd'', ''-f'', ''a.cfg'', ''-v'', ''-s'', ''dir'', ''--help'', ''-c'', ''init''] =
     Exits (- 1)
       \<lparr>help_flag = 1, version_flag = 1, script_search_dirs = [''dir''],
        config_file_names = [''script {a.cfg}'', ''init''], run_lines = [],
        log_lines =
          [(LOG_LVL_OUTPUT, ''Open On-Chip Debugger\<newline>Licensed under GNU GPL v2\<newline>''),
           (LOG_LVL_OUTPUT, ''--help       | -h'' @ [CHR 0x09] @ ''display this help\<newline>''),
           (LOG_LVL_OUTPUT, ''--version    | -v'' @ [CHR 0x09] @ ''display OpenOCD version\<newline>''),
           (LOG_LVL_OUTPUT, ''--file       | -f'' @ [CHR 0x09] @ ''use configuration file <name>\<newline>''),
           (LOG_LVL_OUTPUT,
            ''--search     | -s'' @ [CHR 0x09] @ ''dir to search for config files and scripts\<newline>''),
           (LOG_LVL_OUTPUT, ''--debug      | -d'' @ [CHR 0x09] @ ''set debug level <0-4>\<newline>''),
           (LOG_LVL_OUTPUT,
            ''--log_output | -l'' @ [CHR 0x09] @ ''redirect log output to file <name>\<newline>''),
           (LOG_LVL_OUTPUT, ''--command    | -c'' @ [CHR 0x09] @ ''run <command>\<newline>'')]\<rparr> \<and>
   help_flag initial_state = 0 \<and>
   \<not> help_requested linux_env [''openocd'', ''-c'', ''init'', ''--version''] \<and>
   version_requested linux_env [''openocd'', ''-c'', ''init'', ''--version''] \<and>
   parse_cmdline_args linux_build linux_env initial_state [''openocd'', ''-c'', ''init'', ''--version''] =
     Exits 0
       \<lparr>help_flag = 0, version_flag = 1, script_search_dirs = [],
        config_file_names = [''init''], run_lines = [], log_lines = []\<rparr>"
proof -
  let ?a1 = "[''openocd'', ''-f'', ''a.cfg'', ''-v'', ''-s'', ''dir'', ''--help'', ''-c'', ''init'']"
  let ?a2 = "[''openocd'', ''-c'', ''init'', ''--version'']"
  let ?m1 = "\<lparr>help_flag = 1, version_flag = 1, script_search_dirs = [''dir''],
          config_file_names = [''script {a.cfg}'', ''init''], run_lines = [], log_lines = []\<rparr>"
  have pc: "posixly_correct linux_env = False"
    by (simp add: linux_env_def)
  have h1: "help_requested linux_env ?a1" by code_simp
  have p1: "parse_loop False (gpos [''-f'', ''a.cfg'', ''-v'', ''-s'', ''dir'', ''--help'', ''-c'', ''init''] []) initial_state =
      Inr ?m1"
    by code_simp
  have w1: "pipe_warnings linux_env ?a1 = []" "log_lines initial_state = []"
    by code_simp+
  have h2: "help_flag initial_state = 0" "\<not> help_requested linux_env ?a2" "version_requested linux_env ?a2"
    by code_simp+
  have p2: "parse_loop False (gpos [''-c'', ''init'', ''--version''] []) initial_state =
      Inr \<lparr>help_flag = 0, version_flag = 1, script_search_dirs = [],
        config_file_names = [''init''], run_lines = [], log_lines = []\<rparr>"
    by code_simp
  from help_exits_before_defaults [of linux_env ?a1 initial_state linux_build] h1 obtain c1 where
    c1: "parse_loop (posixly_correct linux_env) (gpos (drop 1 ?a1) []) initial_state = Inr c1"
      "parse_cmdline_args linux_build linux_env initial_state ?a1 = Exits (- 1) (print_usage c1)"
      "log_lines (print_usage c1) =
           log_lines initial_state @ pipe_warnings linux_env ?a1 @
           [(LOG_LVL_OUTPUT, ''Open On-Chip Debugger\<newline>Licensed under GNU GPL v2\<newline>''),
            (LOG_LVL_OUTPUT, ''--help       | -h'' @ [CHR 0x09] @ ''display this help\<newline>''),
            (LOG_LVL_OUTPUT, ''--version    | -v'' @ [CHR 0x09] @ ''display OpenOCD version\<newline>''),
            (LOG_LVL_OUTPUT, ''--file       | -f'' @ [CHR 0x09] @ ''use configuration file <name>\<newline>''),
            (LOG_LVL_OUTPUT,
             ''--search     | -s'' @ [CHR 0x09] @ ''dir to search for config files and scripts\<newline>''),
            (LOG_LVL_OUTPUT, ''--debug      | -d'' @ [CHR 0x09] @ ''set debug level <0-4>\<newline>''),
            (LOG_LVL_OUTPUT,
             ''--log_output | -l'' @ [CHR 0x09] @ ''redirect log output to file <name>\<newline>''),
            (LOG_LVL_OUTPUT, ''--command    | -c'' @ [CHR 0x09] @ ''run <command>\<newline>'')]"
    by blast
  from c1(1) p1 pc have m: "c1 = ?m1" by simp
  have same: "print_usage ?m1 = ?m1\<lparr>log_lines := log_lines (print_usage ?m1)\<rparr>"
    by (simp add: print_usage_def)
  from c1(3) m w1 have "log_lines (print_usage ?m1) =
           [(LOG_LVL_OUTPUT, ''Open On-Chip Debugger\<newline>Licensed under GNU GPL v2\<newline>''),
            (LOG_LVL_OUTPUT, ''--help       | -h'' @ [CHR 0x09] @ ''display this help\<newline>''),
            (LOG_LVL_OUTPUT, ''--version    | -v'' @ [CHR 0x09] @ ''display OpenOCD version\<newline>''),
            (LOG_LVL_OUTPUT, ''--file       | -f'' @ [CHR 0x09] @ ''use configuration file <name>\<newline>''),
            (LOG_LVL_OUTPUT,
             ''--search     | -s'' @ [CHR 0x09] @ ''dir to search for config files and scripts\<newline>''),
            (LOG_LVL_OUTPUT, ''--debug      | -d'' @ [CHR 0x09] @ ''set debug level <0-4>\<newline>''),
            (LOG_LVL_OUTPUT,
             ''--log_output | -l'' @ [CHR 0x09] @ ''redirect log output to file <name>\<newline>''),
            (LOG_LVL_OUTPUT, ''--command    | -c'' @ [CHR 0x09] @ ''run <command>\<newline>'')]"
    by simp
  with same c1(2) m
  have r1: "parse_cmdline_args linux_build linux_env initial_state ?a1 =
     Exits (- 1)
       \<lparr>help_flag = 1, version_flag = 1, script_search_dirs = [''dir''],
        config_file_names = [''script {a.cfg}'', ''init''], run_lines = [],
        log_lines =
          [(LOG_LVL_OUTPUT, ''Open On-Chip Debugger\<newline>Licensed under GNU GPL v2\<newline>''),
           (LOG_LVL_OUTPUT, ''--help       | -h'' @ [CHR 0x09] @ ''display this help\<newline>''),
           (LOG_LVL_OUTPUT, ''--version    | -v'' @ [CHR 0x09] @ ''display OpenOCD version\<newline>''),
           (LOG_LVL_OUTPUT, ''--file       | -f'' @ [CHR 0x09] @ ''use configuration file <name>\<newline>''),
           (LOG_LVL_OUTPUT,
            ''--search     | -s'' @ [CHR 0x09] @ ''dir to search for config files and scripts\<newline>''),
           (LOG_LVL_OUTPUT, ''--debug      | -d'' @ [CHR 0x09] @ ''set debug level <0-4>\<newline>''),
           (LOG_LVL_OUTPUT,
            ''--log_output | -l'' @ [CHR 0x09] @ ''redirect log output to file <name>\<newline>''),
           (LOG_LVL_OUTPUT, ''--command    | -c'' @ [CHR 0x09] @ ''run <command>\<newline>'')]\<rparr>"
    by simp
  from help_exits_before_defaults [of linux_env ?a2 initial_state linux_build] h2 p2 pc
  have r2: "parse_cmdline_args linux_build linux_env initial_state ?a2 =
     Exits 0
       \<lparr>help_flag = 0, version_flag = 1, script_search_dirs = [],
        config_file_names = [''init''], run_lines = [], log_lines = []\<rparr>"
    by auto
  from h1 r1 h2 r2 show ?thesis by blast
qed

subsection \<open>C7: the file option\<close>

text \<open>
  C7. For every path \<open>p\<close>, one occurrence of \<^verbatim>\<open>-f p\<close> (or \<^verbatim>\<open>--file p\<close>) appends
  exactly one entry to the deferred queue, the directive \<^verbatim>\<open>script {p}\<close>, and runs
  nothing: the loop goes on behind the two elements with a state that differs from
  the one before in the queue only.
\<close>

theorem file_option_queues_script:
  "handle_option (gres (chr CHR ''f'') (Some p)) ctx =
     Inr (ctx\<lparr>config_file_names := config_file_names ctx @ [''script {'' @ p @ ''}'']\<rparr>) \<and>
   parse_loop posix (gpos (''-f'' # p # es) []) ctx =
     parse_loop posix (gpos es []) (ctx\<lparr>config_file_names := config_file_names ctx @ [''script {'' @ p @ ''}'']\<rparr>) \<and>
   parse_loop posix (gpos (''--file'' # p # es) []) ctx =
     parse_loop posix (gpos es []) (ctx\<lparr>config_file_names := config_file_names ctx @ [''script {'' @ p @ ''}'']\<rparr>)"
proof (intro conjI)
  show h: "handle_option (gres (chr CHR ''f'') (Some p)) ctx =
     Inr (ctx\<lparr>config_file_names := config_file_names ctx @ [''script {'' @ p @ ''}'']\<rparr>)"
    by (rule handle_f)
  have "getopt_long posix optstring long_options (gpos (''-f'' # p # es) []) =
          (gres (chr CHR ''f'') (Some p), gpos es [])"
    by (simp add: getopt_long_short_element getopt_short_def short_lookup_optstring)
  then show "parse_loop posix (gpos (''-f'' # p # es) []) ctx =
     parse_loop posix (gpos es []) (ctx\<lparr>config_file_names := config_file_names ctx @ [''script {'' @ p @ ''}'']\<rparr>)"
    by (rule parse_loop_step) (simp_all add: h)
  have "getopt_long posix optstring long_options (gpos (''--file'' # p # es) []) =
          (gres (chr CHR ''f'') (Some p), gpos es [])"
    by (simp add: getopt_long_long_element getopt_longopt_def find_long_file deliver_def)
  then show "parse_loop posix (gpos (''--file'' # p # es) []) ctx =
     parse_loop posix (gpos es []) (ctx\<lparr>config_file_names := config_file_names ctx @ [''script {'' @ p @ ''}'']\<rparr>)"
    by (rule parse_loop_step) (simp_all add: h)
qed

text \<open>C7 at \<^verbatim>\<open>-f foo.cfg\<close>, from the initial state.\<close>

theorem file_option_queues_script_witness:
  "parse_loop False (gpos [''-f'', ''foo.cfg''] []) initial_state =
     Inr (initial_state\<lparr>config_file_names := [''script {foo.cfg}'']\<rparr>)"
  using file_option_queues_script [of "''foo.cfg''" initial_state False "[]"]
  by (simp add: parse_loop_end initial_state_def)

subsection \<open>C8: the debug option\<close>

text \<open>
  C8 as stated fails for an argument given as a separate word. The argument of \<^verbatim>\<open>-d\<close>
  is optional (\<^verbatim>\<open>d::\<close>), so \<^verbatim>\<open>getopt_long\<close> takes it only from the same element:
  \<^verbatim>\<open>-d 2\<close> is \<^verbatim>\<open>-d\<close> without argument, and \<^verbatim>\<open>debug_level 3\<close> is run.
\<close>

theorem debug_separate_word_counterexample:
  "getopt_results False (gpos [''-d'', ''2''] []) = [gres (chr CHR ''d'') None] \<and>
   parse_loop False (gpos [''-d'', ''2''] []) initial_state =
     Inr (initial_state\<lparr>run_lines := [''debug_level 3'']\<rparr>)"
  by code_simp

text \<open>
  C8, amended. Every result \<^verbatim>\<open>'d'\<close> runs one directive at once and leaves the deferred
  queue alone: \<^verbatim>\<open>debug_level 3\<close> when \<^verbatim>\<open>optarg\<close> is \<^verbatim>\<open>NULL\<close>, else
  \<^verbatim>\<open>debug_level N\<close>. The elements \<^verbatim>\<open>-d\<close> and \<^verbatim>\<open>--debug\<close> run \<^verbatim>\<open>debug_level 3\<close>
  whatever follows them, and the following element is not consumed; \<^verbatim>\<open>-dN\<close> and
  \<^verbatim>\<open>--debug=N\<close> run \<^verbatim>\<open>debug_level N\<close>.
\<close>

theorem debug_option_runs_directive:
  "handle_option (gres (chr CHR ''d'') oa) ctx =
     Inr (ctx\<lparr>run_lines := run_lines ctx @ [''debug_level '' @ (case oa of Some n \<Rightarrow> n | None \<Rightarrow> ''3'')]\<rparr>) \<and>
   parse_loop posix (gpos (''-d'' # es) []) ctx =
     parse_loop posix (gpos es []) (ctx\<lparr>run_lines := run_lines ctx @ [''debug_level 3'']\<rparr>) \<and>
   parse_loop posix (gpos (''--debug'' # es) []) ctx =
     parse_loop posix (gpos es []) (ctx\<lparr>run_lines := run_lines ctx @ [''debug_level 3'']\<rparr>) \<and>
   parse_loop posix (gpos ((''-d'' @ x # n) # es) []) ctx =
     parse_loop posix (gpos es []) (ctx\<lparr>run_lines := run_lines ctx @ [''debug_level '' @ x # n]\<rparr>) \<and>
   parse_loop posix (gpos ((''--debug='' @ n) # es) []) ctx =
     parse_loop posix (gpos es []) (ctx\<lparr>run_lines := run_lines ctx @ [''debug_level '' @ n]\<rparr>)"
proof (intro conjI)
  show "handle_option (gres (chr CHR ''d'') oa) ctx =
     Inr (ctx\<lparr>run_lines := run_lines ctx @ [''debug_level '' @ (case oa of Some n \<Rightarrow> n | None \<Rightarrow> ''3'')]\<rparr>)"
    by (rule handle_d)
  have "getopt_long posix optstring long_options (gpos (''-d'' # es) []) =
          (gres (chr CHR ''d'') None, gpos es [])"
    by (simp add: getopt_long_short_element getopt_short_def short_lookup_optstring)
  then show "parse_loop posix (gpos (''-d'' # es) []) ctx =
     parse_loop posix (gpos es []) (ctx\<lparr>run_lines := run_lines ctx @ [''debug_level 3'']\<rparr>)"
    by (rule parse_loop_step) (simp_all add: handle_d)
  have "getopt_long posix optstring long_options (gpos (''--debug'' # es) []) =
          (gres (chr CHR ''d'') None, gpos es [])"
    by (simp add: getopt_long_long_element getopt_longopt_def find_long_debug deliver_def)
  then show "parse_loop posix (gpos (''--debug'' # es) []) ctx =
     parse_loop posix (gpos es []) (ctx\<lparr>run_lines := run_lines ctx @ [''debug_level 3'']\<rparr>)"
    by (rule parse_loop_step) (simp_all add: handle_d)
  have "getopt_long posix optstring long_options (gpos ((''-d'' @ x # n) # es) []) =
          (gres (chr CHR ''d'') (Some (x # n)), gpos es [])"
    by (simp add: getopt_long_short_element getopt_short_def short_lookup_optstring)
  then show "parse_loop posix (gpos ((''-d'' @ x # n) # es) []) ctx =
     parse_loop posix (gpos es []) (ctx\<lparr>run_lines := run_lines ctx @ [''debug_level '' @ x # n]\<rparr>)"
    by (rule parse_loop_step) (simp_all add: handle_d)
  have "getopt_long posix optstring long_options (gpos ((''--debug='' @ n) # es) []) =
          (gres (chr CHR ''d'') (Some n), gpos es [])"
    by (simp add: getopt_long_long_element getopt_longopt_def find_long_debug deliver_def)
  then show "parse_loop posix (gpos ((''--debug='' @ n) # es) []) ctx =
     parse_loop posix (gpos es []) (ctx\<lparr>run_lines := run_lines ctx @ [''debug_level '' @ n]\<rparr>)"
    by (rule parse_loop_step) (simp_all add: handle_d)
qed

text \<open>C8, amended, at \<^verbatim>\<open>-d\<close>, \<^verbatim>\<open>-d2\<close> and \<^verbatim>\<open>--debug=2\<close>.\<close>

theorem debug_option_runs_directive_witness:
  "parse_loop False (gpos [''-d''] []) initial_state = Inr (initial_state\<lparr>run_lines := [''debug_level 3'']\<rparr>) \<and>
   parse_loop False (gpos [''-d2''] []) initial_state = Inr (initial_state\<lparr>run_lines := [''debug_level 2'']\<rparr>) \<and>
   parse_loop False (gpos [''--debug=2''] []) initial_state = Inr (initial_state\<lparr>run_lines := [''debug_level 2'']\<rparr>)"
  using debug_option_runs_directive
      [where oa = None and ctx = initial_state and posix = False and es = "[]" and x = "CHR ''2''" and n = "[]"]
    debug_option_runs_directive
      [where oa = None and ctx = initial_state and posix = False and es = "[]" and x = "CHR ''2''" and n = "''2''"]
  by (simp add: parse_loop_end initial_state_def)

subsection \<open>C9: the precondition of the default path builder\<close>

text \<open>
  C9. \<^verbatim>\<open>add_default_dirs\<close> writes through the result of \<^verbatim>\<open>strrchr(exepath, '/')\<close>
  unchecked: given what \<^verbatim>\<open>find_exe_path\<close> returned, it faults exactly when that is
  \<^verbatim>\<open>NULL\<close> or a string without a slash. Both are reachable through the \<^verbatim>\<open>BINDIR\<close>
  fallback: \<^verbatim>\<open>NULL\<close> when \<^verbatim>\<open>realpath(BINDIR)\<close> fails, a string without a slash
  when \<^verbatim>\<open>realpath\<close> is not available and \<^verbatim>\<open>BINDIR\<close> has none.
\<close>

theorem add_default_dirs_precondition:
  "(find_exe_path b e ctx = Inr (p, c0) \<longrightarrow>
      (add_default_dirs b e ctx = Inl NullDeref) = (p = None \<or> (\<exists>s. p = Some s \<and> CHR ''/'' \<notin> set s))) \<and>
   (platform_exe_path b e = None \<and> HAVE_REALPATH b \<and> realpath e (BINDIR b) = None \<longrightarrow>
      add_default_dirs b e ctx = Inl NullDeref) \<and>
   (platform_exe_path b e = None \<and> \<not> HAVE_REALPATH b \<and> CHR ''/'' \<notin> set (BINDIR b) \<longrightarrow>
      add_default_dirs b e ctx = Inl NullDeref)"
proof (intro conjI impI)
  assume "find_exe_path b e ctx = Inr (p, c0)"
  then show "(add_default_dirs b e ctx = Inl NullDeref) = (p = None \<or> (\<exists>s. p = Some s \<and> CHR ''/'' \<notin> set s))"
    by (simp add: add_default_dirs_Inl_iff cut_at_last_slash_Inl_iff)
next
  assume a: "platform_exe_path b e = None \<and> HAVE_REALPATH b \<and> realpath e (BINDIR b) = None"
  then obtain c0 where "find_exe_path b e ctx = Inr (None, c0)"
    by (simp add: find_exe_path_def Let_def)
  then show "add_default_dirs b e ctx = Inl NullDeref"
    by (simp add: add_default_dirs_Inl_iff cut_at_last_slash_Inl_iff)
next
  assume a: "platform_exe_path b e = None \<and> \<not> HAVE_REALPATH b \<and> CHR ''/'' \<notin> set (BINDIR b)"
  then obtain c0 where "find_exe_path b e ctx = Inr (Some (BINDIR b), c0)"
    by (simp add: find_exe_path_def Let_def)
  with a show "add_default_dirs b e ctx = Inl NullDeref"
    by (simp add: add_default_dirs_Inl_iff cut_at_last_slash_Inl_iff)
qed

text \<open>C9 at an executable in the root directory, at an environment where nothing
  resolves, and at a build with a relative \<^verbatim>\<open>BINDIR\<close>.\<close>

theorem add_default_dirs_precondition_witness:
  "find_exe_path linux_build root_env initial_state = Inr (Some [], initial_state) \<and>
   add_default_dirs linux_build root_env initial_state = Inl NullDeref \<and>
   platform_exe_path linux_build bare_env = None \<and> HAVE_REALPATH linux_build \<and>
   realpath bare_env (BINDIR linux_build) = None \<and>
   add_default_dirs linux_build bare_env initial_state = Inl NullDeref \<and>
   platform_exe_path relative_build starved_env = None \<and> \<not> HAVE_REALPATH relative_build \<and>
   CHR ''/'' \<notin> set (BINDIR relative_build) \<and>
   add_default_dirs relative_build starved_env initial_state = Inl NullDeref"
proof -
  have f: "find_exe_path linux_build root_env initial_state = Inr (Some [], initial_state)"
    by code_simp
  have p1: "platform_exe_path linux_build bare_env = None \<and> HAVE_REALPATH linux_build \<and>
      realpath bare_env (BINDIR linux_build) = None"
    by (simp add: platform_exe_path_def linux_build_def bare_env_def HAVE_REALPATH_def)
  have p2: "platform_exe_path relative_build starved_env = None \<and> \<not> HAVE_REALPATH relative_build \<and>
      CHR ''/'' \<notin> set (BINDIR relative_build)"
    by (simp add: platform_exe_path_def relative_build_def starved_env_def HAVE_REALPATH_def)
  show ?thesis
    using add_default_dirs_precondition [of linux_build root_env initial_state "Some []" initial_state]
      add_default_dirs_precondition [of linux_build bare_env initial_state]
      add_default_dirs_precondition [of relative_build starved_env initial_state]
      f p1 p2
    by simp
qed

subsection \<open>C10: the build-dependent layout\<close>

text \<open>
  C10 does not hold of the code. The suffix is the literal \<^verbatim>\<open>bin\<close> on a Windows build
  with \<^verbatim>\<open>NUVOTON_CUSTOMIZED\<close> and \<^verbatim>\<open>BINDIR\<close> on every other build, and the data
  directory component is left out on the former, but the suffix is not cut from the
  executable directory: \<^verbatim>\<open>add_default_dirs\<close> first cuts that directory at its last
  slash (see C2). For \<^verbatim>\<open>C:/OpenOCD/bin/openocd.exe\<close> on the Nuvoton build the
  executable directory without the suffix \<^verbatim>\<open>bin\<close> is \<^verbatim>\<open>C:/OpenOCD/\<close>, the run prefix
  computed is \<^verbatim>\<open>C:/OpenOCD\<close>. For \<^verbatim>\<open>/usr/local/bin/openocd\<close> on the Linux build the
  executable directory without the suffix \<^verbatim>\<open>/usr/local/bin\<close> is empty, the run prefix
  computed is \<^verbatim>\<open>/usr/local\<close>, and the defaults are
  \<^verbatim>\<open>/usr/local/usr/local/share/openocd/site\<close> and
  \<^verbatim>\<open>/usr/local/usr/local/share/openocd/scripts\<close>.
\<close>

theorem suffix_cut_from_parent_directory:
  "find_exe_path nuvoton_build windows_env initial_state = Inr (Some ''C:/OpenOCD/bin'', initial_state) \<and>
   spec_run_prefix nuvoton_build ''C:/OpenOCD/bin'' = ''C:/OpenOCD/'' \<and>
   run_prefix nuvoton_build (Some ''C:/OpenOCD/bin'') = Inr ''C:/OpenOCD'' \<and>
   map_sum id script_search_dirs (add_default_dirs nuvoton_build windows_env initial_state) =
     Inr [''C:/Users/user/AppData/OpenOCD'', ''C:/OpenOCD/site'', ''C:/OpenOCD/scripts''] \<and>
   find_exe_path linux_build linux_env initial_state = Inr (Some ''/usr/local/bin'', initial_state) \<and>
   spec_run_prefix linux_build ''/usr/local/bin'' = [] \<and>
   run_prefix linux_build (Some ''/usr/local/bin'') = Inr ''/usr/local'' \<and>
   map_sum id script_search_dirs (add_default_dirs linux_build linux_env initial_state) =
     Inr [''/home/user/.openocd'', ''/usr/local/usr/local/share/openocd/site'',
          ''/usr/local/usr/local/share/openocd/scripts'']"
  by code_simp

end
